theory Spec2Isabelle
  imports Main "HOL-Library.Sublist" "HOL-Library.Word"
begin

section \<open>Errors raised by the notebooks' library calls\<close>

text \<open>
  The notebooks raise nothing themselves: every exception comes out of a library call
  and is never caught.  An exception is a value of \<open>error\<close>; a computation that may
  raise returns \<open>error + 'a\<close> with \<open>Inl\<close> for the exception.  The calls that reach
  out of the process (the catalog search, the baseline stack, \<open>gdal.Info\<close>,
  \<open>gdal.Translate\<close>, the job submission) are parameters of the model and return their
  results; what is modelled is what the notebooks do with those results.
\<close>

datatype error =
    ValueError        \<comment> \<open>Python's \<open>max\<close> / \<open>min\<close> of an empty sequence\<close>
  | ASFSearchError    \<comment> \<open>asf\_search: the search results are incomplete\<close>

section \<open>Scene tables and the SBAS pairing loop\<close>

text \<open>
  A scene of the baseline stack.  A product has one property per search field and the
  data frame one column per property; the pairing loop and \<open>get_neighbors\<close> read two of
  them, the scene's identifier and its temporal baseline in days.  The baseline of a
  product is a Python integer (\<open>int scene\<close>); in the data frame the baselines are a
  column of 64-bit signed integers (\<open>int64 scene\<close>), whose arithmetic wraps around.
\<close>

record 'b scene =
  sceneName :: string
  temporalBaseline :: 'b

type_synonym int64 = "64 word"

text \<open>
  \<open>sbas_pairs = set()\<close> with \<open>sbas_pairs.add(...)\<close>: the set is kept as the list of its
  elements in insertion order, and adding an element already present changes nothing.
  (Python fixes no iteration order; the list is a representation only.)
\<close>

definition set_add :: "'a \<Rightarrow> 'a list \<Rightarrow> 'a list" where
  "set_add x s = (if x \<in> set s then s else s @ [x])"

text \<open>
  The boolean mask of \<open>stack.loc[...]\<close> for a reference named \<open>reference\<close> with the
  temporal baseline \<open>rt\<close>:
  \<^verbatim>\<open>(stack.sceneName != reference)
  & (stack.temporalBaseline - rt <= max_temporal_baseline)
  & (stack.temporalBaseline - rt > 0)\<close>
  The subtraction is the column's: it is computed in 64 bits and wraps around on
  overflow.  Its result is read as a signed number (\<open>sint\<close>) and compared with the Python
  integers \<open>max_temporal_baseline\<close> and \<open>0\<close>.
\<close>

definition secondaries :: "int \<Rightarrow> int64 scene list \<Rightarrow> string \<Rightarrow> int64 \<Rightarrow> int64 scene list" where
  "secondaries max_temporal_baseline stack reference rt =
     filter (\<lambda>row. sceneName row \<noteq> reference
                \<and> sint (temporalBaseline row - rt) \<le> max_temporal_baseline
                \<and> sint (temporalBaseline row - rt) > 0) stack"

text \<open>The inner loop: \<open>for secondary in secondaries.sceneName: sbas_pairs.add((reference, secondary))\<close>.\<close>

fun add_secondaries :: "string \<Rightarrow> int64 scene list \<Rightarrow> (string \<times> string) list \<Rightarrow> (string \<times> string) list" where
  "add_secondaries reference [] sbas = sbas"
| "add_secondaries reference (row # rows) sbas =
     add_secondaries reference rows (set_add (reference, sceneName row) sbas)"

text \<open>The outer loop over the rows \<open>(reference, rt)\<close> still to visit.\<close>

fun sbas_loop :: "int \<Rightarrow> int64 scene list \<Rightarrow> int64 scene list \<Rightarrow> (string \<times> string) list \<Rightarrow> (string \<times> string) list" where
  "sbas_loop max_temporal_baseline stack [] sbas = sbas"
| "sbas_loop max_temporal_baseline stack (r # rs) sbas =
     sbas_loop max_temporal_baseline stack rs
       (add_secondaries (sceneName r)
          (secondaries max_temporal_baseline stack (sceneName r) (temporalBaseline r)) sbas)"

text \<open>
  The whole cell: the rows are visited last to first (\<open>stack.loc[::-1, ...]\<close>), starting
  from the empty set.
\<close>

definition sbas_pairs :: "int \<Rightarrow> int64 scene list \<Rightarrow> (string \<times> string) list" where
  "sbas_pairs max_temporal_baseline stack = sbas_loop max_temporal_baseline stack (rev stack) []"

text \<open>
  A scene table in which a scene name stands for one acquisition: rows with the same name
  carry the same temporal baseline.
\<close>

definition names_identify :: "int64 scene list \<Rightarrow> bool" where
  "names_identify stack =
     (\<forall>a \<in> set stack. \<forall>b \<in> set stack.
        sceneName a = sceneName b \<longrightarrow> temporalBaseline a = temporalBaseline b)"

text \<open>
  A scene table in which no difference of two baselines overflows: the 64-bit subtraction
  of the mask is the subtraction of the integers.
\<close>

definition differences_fit :: "int64 scene list \<Rightarrow> bool" where
  "differences_fit stack =
     (\<forall>a \<in> set stack. \<forall>b \<in> set stack.
        - (2 ^ 63) \<le> sint (temporalBaseline b) - sint (temporalBaseline a)
        \<and> sint (temporalBaseline b) - sint (temporalBaseline a) < 2 ^ 63)"

text \<open>The table of the spec's scenario: baselines A:0, B:10, C:20, D:50.\<close>

definition scenario_stack :: "int64 scene list" where
  "scenario_stack =
     [\<lparr>sceneName = ''A'', temporalBaseline = 0\<rparr>,
      \<lparr>sceneName = ''B'', temporalBaseline = 10\<rparr>,
      \<lparr>sceneName = ''C'', temporalBaseline = 20\<rparr>,
      \<lparr>sceneName = ''D'', temporalBaseline = 50\<rparr>]"

text \<open>
  A baseline stack relative to its last scene, as the products the catalog returns and
  as the rows of the data frame built from them.
\<close>

definition example_stack :: "int scene list" where
  "example_stack =
     [\<lparr>sceneName = ''S1_372326_IW3_20140601'', temporalBaseline = -36\<rparr>,
      \<lparr>sceneName = ''S1_372326_IW3_20140613'', temporalBaseline = -24\<rparr>,
      \<lparr>sceneName = ''S1_372326_IW3_20140707'', temporalBaseline = 0\<rparr>]"

definition example_frame :: "int64 scene list" where
  "example_frame =
     [\<lparr>sceneName = ''S1_372326_IW3_20140601'', temporalBaseline = -36\<rparr>,
      \<lparr>sceneName = ''S1_372326_IW3_20140613'', temporalBaseline = -24\<rparr>,
      \<lparr>sceneName = ''S1_372326_IW3_20140707'', temporalBaseline = 0\<rparr>]"

text \<open>A table that breaks \<open>names_identify\<close>: one name on two rows with different baselines.\<close>

definition ambiguous_stack :: "int64 scene list" where
  "ambiguous_stack =
     [\<lparr>sceneName = ''A'', temporalBaseline = 0\<rparr>,
      \<lparr>sceneName = ''A'', temporalBaseline = 10\<rparr>,
      \<lparr>sceneName = ''B'', temporalBaseline = 5\<rparr>]"

text \<open>
  A table with two baselines near the ends of the 64-bit range: the difference
  \<open>S - R\<close> is \<open>10 - 2^64\<close>, which the column's subtraction wraps to \<open>10\<close>.
\<close>

definition overflow_stack :: "int64 scene list" where
  "overflow_stack =
     [\<lparr>sceneName = ''R'', temporalBaseline = 9223372036854775803\<rparr>,
      \<lparr>sceneName = ''S'', temporalBaseline = - 9223372036854775803\<rparr>]"

section \<open>Python built-ins\<close>

text \<open>
  \<open>max(iterable)\<close>: \<open>ValueError\<close> on an empty iterable; otherwise the first element is
  the candidate and a later element replaces it when it is strictly greater.
\<close>

fun max_loop :: "'a::linorder \<Rightarrow> 'a list \<Rightarrow> 'a" where
  "max_loop m [] = m"
| "max_loop m (x # xs) = max_loop (if x > m then x else m) xs"

fun py_max :: "'a::linorder list \<Rightarrow> error + 'a" where
  "py_max [] = Inl ValueError"
| "py_max (x # xs) = Inr (max_loop x xs)"

text \<open>\<open>min(iterable)\<close>, the same with \<open><\<close>.\<close>

fun min_loop :: "'a::linorder \<Rightarrow> 'a list \<Rightarrow> 'a" where
  "min_loop m [] = m"
| "min_loop m (x # xs) = min_loop (if x < m then x else m) xs"

fun py_min :: "'a::linorder list \<Rightarrow> error + 'a" where
  "py_min [] = Inl ValueError"
| "py_min (x # xs) = Inr (min_loop x xs)"

text \<open>
  The slice \<open>xs[i:]\<close>: a negative start counts from the end and is clipped at the front;
  a start past the end gives the empty list.  \<open>-0\<close> is \<open>0\<close>, the whole list.
\<close>

definition py_slice_from :: "int \<Rightarrow> 'a list \<Rightarrow> 'a list" where
  "py_slice_from i xs =
     (let n = int (length xs);
          start = (if i < 0 then max (i + n) 0 else min i n)
      in drop (nat start) xs)"

section \<open>The common overlap of a list of rasters\<close>

text \<open>
  \<open>gdal.Info(..., format='json')['cornerCoordinates']\<close>: of the corners GDAL reports the
  function reads \<open>upperLeft\<close> and \<open>lowerRight\<close>, each an \<open>[x, y]\<close> pair.  Coordinates are
  compared and never computed with, so they are elements of any linear order (the
  floats without NaN are one).
\<close>

record 'a corner_coordinates =
  upperLeft :: "'a \<times> 'a"
  lowerRight :: "'a \<times> 'a"

text \<open>
  \<open>get_common_overlap(file_list)\<close>; \<open>gdal_info\<close> maps a file to its corner coordinates.
\<close>

definition get_common_overlap ::
  "('f \<Rightarrow> ('a::linorder) corner_coordinates) \<Rightarrow> 'f list \<Rightarrow> error + 'a list" where
  "get_common_overlap gdal_info file_list =
     (let corners = map gdal_info file_list in
      case py_max (map (\<lambda>corner. fst (upperLeft corner)) corners) of Inl e \<Rightarrow> Inl e | Inr ulx \<Rightarrow>
      (case py_min (map (\<lambda>corner. snd (upperLeft corner)) corners) of Inl e \<Rightarrow> Inl e | Inr uly \<Rightarrow>
      (case py_min (map (\<lambda>corner. fst (lowerRight corner)) corners) of Inl e \<Rightarrow> Inl e | Inr lrx \<Rightarrow>
      (case py_max (map (\<lambda>corner. snd (lowerRight corner)) corners) of Inl e \<Rightarrow> Inl e | Inr lry \<Rightarrow>
         Inr [ulx, uly, lrx, lry]))))"

text \<open>
  The points of a raster's bounding box, and the points of a window
  \<open>[ulx, uly, lrx, lry]\<close> (north-up: \<open>y\<close> grows upwards, so the upper edge has the larger
  \<open>y\<close>).
\<close>

definition in_bounding_box :: "('a::linorder) corner_coordinates \<Rightarrow> 'a \<times> 'a \<Rightarrow> bool" where
  "in_bounding_box corner p =
     (fst (upperLeft corner) \<le> fst p \<and> fst p \<le> fst (lowerRight corner)
      \<and> snd (lowerRight corner) \<le> snd p \<and> snd p \<le> snd (upperLeft corner))"

fun in_proj_win :: "('a::linorder) list \<Rightarrow> 'a \<times> 'a \<Rightarrow> bool" where
  "in_proj_win [ulx, uly, lrx, lry] p = (ulx \<le> fst p \<and> fst p \<le> lrx \<and> lry \<le> snd p \<and> snd p \<le> uly)"
| "in_proj_win _ p = False"

section \<open>Processing new granules: neighbours and job submission\<close>

text \<open>
  What a catalog search or a baseline-stack query returns: the products, and whether the
  search ran to completion.
\<close>

record asf_results =
  products :: "int scene list"
  searchComplete :: bool

text \<open>
  Modelled from the spec: \<open>raise_if_incomplete\<close> is a method of the search SDK's result
  class, which is not in this repository; the spec gives its behaviour as
  "raise if search results incomplete".
\<close>

definition raise_if_incomplete :: "asf_results \<Rightarrow> error + unit" where
  "raise_if_incomplete results = (if searchComplete results then Inr () else Inl ASFSearchError)"

text \<open>
  \<open>get_neighbors(granule, platform, depth=2)\<close>.  \<open>str.startswith\<close> is \<open>prefix\<close>.
\<close>

definition get_neighbors ::
  "(int scene \<Rightarrow> asf_results) \<Rightarrow> int scene \<Rightarrow> string \<Rightarrow> int \<Rightarrow> error + string list" where
  "get_neighbors stack_from_product granule platform depth =
     (let stack = stack_from_product granule in
      case raise_if_incomplete stack of
        Inl e \<Rightarrow> Inl e
      | Inr _ \<Rightarrow>
          (let stack = filter (\<lambda>item. temporalBaseline item < 0
                                       \<and> prefix platform (sceneName item)) (products stack);
               neighbors = map sceneName (py_slice_from (- depth) stack)
           in Inr neighbors))"

text \<open>
  A job specification: \<open>job_parameters\<close> holds at most the key \<open>granules\<close>
  (\<open>None\<close>: the key is absent, as in the notebook's \<open>job_specification\<close>).
\<close>

record job =
  job_type :: string
  job_name :: string
  granules :: "string list option"

text \<open>
  \<open>get_jobs_for_granule(granule)\<close>: one copy of the specification per neighbour, with
  the default \<open>depth\<close>.  \<open>job_specification\<close> and \<open>search_parameters['platform']\<close> are the
  notebook's globals.
\<close>

definition get_jobs_for_granule ::
  "(int scene \<Rightarrow> asf_results) \<Rightarrow> job \<Rightarrow> string \<Rightarrow> int scene \<Rightarrow> error + job list" where
  "get_jobs_for_granule stack_from_product job_specification platform granule =
     (case get_neighbors stack_from_product granule platform 2 of
        Inl e \<Rightarrow> Inl e
      | Inr neighbors \<Rightarrow>
          Inr (map (\<lambda>neighbor. job_specification\<lparr>granules := Some [sceneName granule, neighbor]\<rparr>)
                 neighbors))"

text \<open>
  \<open>[job for granule in batch for job in get_jobs_for_granule(granule)]\<close>: the first
  exception ends the comprehension.
\<close>

fun new_jobs :: "(int scene \<Rightarrow> asf_results) \<Rightarrow> job \<Rightarrow> string \<Rightarrow> int scene list \<Rightarrow> error + job list" where
  "new_jobs stack_from_product job_specification platform [] = Inr []"
| "new_jobs stack_from_product job_specification platform (granule # batch) =
     (case get_jobs_for_granule stack_from_product job_specification platform granule of
        Inl e \<Rightarrow> Inl e
      | Inr js \<Rightarrow>
          (case new_jobs stack_from_product job_specification platform batch of
             Inl e \<Rightarrow> Inl e
           | Inr rest \<Rightarrow> Inr (js @ rest)))"

definition batch_size :: nat where
  "batch_size = 10"

text \<open>
  \<open>for i in range(0, len(xs), batch_size): xs[i:i+batch_size]\<close>: the list cut into
  consecutive batches.
\<close>

function batches :: "'a list \<Rightarrow> 'a list list" where
  "batches xs = (if xs = [] then [] else take batch_size xs # batches (drop batch_size xs))"
  by pat_completeness auto
termination
  by (relation "measure length") (auto simp: batch_size_def)

declare batches.simps [simp del]

text \<open>
  The submission loop.  The state is the list of the batches handed to
  \<open>hyp3.submit_prepared_jobs\<close> so far; an exception leaves it as it is and ends the loop.
\<close>

fun submit_batches ::
  "(int scene \<Rightarrow> asf_results) \<Rightarrow> job \<Rightarrow> string \<Rightarrow> int scene list list \<Rightarrow> job list list
     \<Rightarrow> job list list \<times> (error + unit)" where
  "submit_batches stack_from_product job_specification platform [] submitted = (submitted, Inr ())"
| "submit_batches stack_from_product job_specification platform (batch # rest) submitted =
     (case new_jobs stack_from_product job_specification platform batch of
        Inl e \<Rightarrow> (submitted, Inl e)
      | Inr js \<Rightarrow>
          submit_batches stack_from_product job_specification platform rest (submitted @ [js]))"

text \<open>
  \<open>[result for result in search_results
     if result.properties['sceneName'] not in processed_granules]\<close>
\<close>

definition unprocessed_granules :: "string list \<Rightarrow> asf_results \<Rightarrow> int scene list" where
  "unprocessed_granules processed_granules search_results =
     filter (\<lambda>result. sceneName result \<notin> set processed_granules) (products search_results)"

text \<open>
  The notebook from the search on: \<open>search_results\<close> is what \<open>asf_search.search\<close>
  returned, \<open>processed_granules\<close> the first granule of every job found under the
  project's name.  The result is the batches submitted and how the run ended.
\<close>

definition process_new_granules ::
  "string list \<Rightarrow> asf_results \<Rightarrow> (int scene \<Rightarrow> asf_results) \<Rightarrow> job \<Rightarrow> string
     \<Rightarrow> job list list \<times> (error + unit)" where
  "process_new_granules processed_granules search_results stack_from_product job_specification platform =
     (case raise_if_incomplete search_results of
        Inl e \<Rightarrow> ([], Inl e)
      | Inr _ \<Rightarrow>
          submit_batches stack_from_product job_specification platform
            (batches (unprocessed_granules processed_granules search_results)) [])"


section \<open>Clipping the products to the common overlap\<close>

text \<open>A path below \<open>data_dir\<close>: the directory it lies in and its final component.\<close>

record path =
  parent :: string
  name :: string

text \<open>\<open>str.rfind(c)\<close>: the index of the last \<open>c\<close>, \<open>None\<close> for Python's \<open>-1\<close>.\<close>

definition rfind :: "char \<Rightarrow> string \<Rightarrow> nat option" where
  "rfind c s =
     (if c \<in> set s then Some (length s - 1 - length (takeWhile (\<lambda>d. d \<noteq> c) (rev s))) else None)"

text \<open>
  pathlib's \<open>suffix\<close> and \<open>stem\<close> of a final component: with \<open>i = name.rfind('.')\<close>, the
  suffix is \<open>name[i:]\<close> and the stem \<open>name[:i]\<close> when \<open>0 < i < len(name) - 1\<close>; otherwise
  the suffix is empty and the stem is the name.
\<close>

definition path_suffix :: "string \<Rightarrow> string" where
  "path_suffix nm =
     (case rfind (CHR ''.'') nm of
        None \<Rightarrow> []
      | Some i \<Rightarrow> if 0 < i \<and> i < length nm - 1 then drop i nm else [])"

definition path_stem :: "string \<Rightarrow> string" where
  "path_stem nm =
     (case rfind (CHR ''.'') nm of
        None \<Rightarrow> nm
      | Some i \<Rightarrow> if 0 < i \<and> i < length nm - 1 then take i nm else nm)"

text \<open>
  \<open>data_dir.rglob(f'*{extension}')\<close> over \<open>tree\<close>, the paths below \<open>data_dir\<close> at any
  depth: a path matches when its final component ends with the extension (no extension
  of the notebooks holds a wildcard character).
\<close>

definition rglob :: "path list \<Rightarrow> string \<Rightarrow> path list" where
  "rglob tree extension = filter (\<lambda>file. suffix extension (name file)) tree"

text \<open>One call \<open>gdal.Translate(destName=..., srcDS=..., projWin=...)\<close>.\<close>

record 'a translate_call =
  destName :: path
  srcDS :: path
  projWin :: "'a list"

text \<open>
  \<open>dst_file = file.parent / f'{file.stem}_clipped{file.suffix}'\<close>.
\<close>

definition dst_file :: "path \<Rightarrow> path" where
  "dst_file file =
     \<lparr>parent = parent file,
      name = path_stem (name file) @ ''_clipped'' @ path_suffix (name file)\<rparr>"

text \<open>
  The two loops of \<open>clip_hyp3_products_to_common_overlap\<close>, for a list of extensions:
  the calls of \<open>gdal.Translate\<close> in the order they are made.
\<close>

definition clip_products :: "string list \<Rightarrow> path list \<Rightarrow> 'a list \<Rightarrow> 'a translate_call list" where
  "clip_products extensions tree overlap =
     concat (map (\<lambda>extension.
               map (\<lambda>file. \<lparr>destName = dst_file file, srcDS = file, projWin = overlap\<rparr>)
                 (rglob tree extension))
             extensions)"

text \<open>\<open>files_for_mintpy\<close> of the ISCE2 burst notebook.\<close>

definition files_for_mintpy :: "string list" where
  "files_for_mintpy =
     [''_water_mask.tif'', ''_corr.tif'', ''_conncomp.tif'', ''_unw_phase.tif'',
      ''_dem.tif'', ''_lv_theta.tif'', ''_lv_phi.tif'']"

text \<open>\<open>files_for_mintpy\<close> of the GAMMA notebook: no connected components.\<close>

definition files_for_mintpy_gamma :: "string list" where
  "files_for_mintpy_gamma =
     [''_water_mask.tif'', ''_corr.tif'', ''_unw_phase.tif'',
      ''_dem.tif'', ''_lv_theta.tif'', ''_lv_phi.tif'']"

text \<open>\<open>clip_hyp3_products_to_common_overlap(data_dir, overlap)\<close> of the burst notebook.\<close>

definition clip_hyp3_products_to_common_overlap :: "path list \<Rightarrow> 'a list \<Rightarrow> 'a translate_call list" where
  "clip_hyp3_products_to_common_overlap tree overlap = clip_products files_for_mintpy tree overlap"

text \<open>The function of the same name in the GAMMA notebook.\<close>

definition clip_hyp3_products_to_common_overlap_gamma :: "path list \<Rightarrow> 'a list \<Rightarrow> 'a translate_call list" where
  "clip_hyp3_products_to_common_overlap_gamma tree overlap =
     clip_products files_for_mintpy_gamma tree overlap"

text \<open>The name a product with the extension \<open>extension\<close> has after clipping.\<close>

definition clipped_extension :: "string \<Rightarrow> string" where
  "clipped_extension extension = path_stem extension @ ''_clipped'' @ path_suffix extension"

section \<open>The MintPy configuration file\<close>

text \<open>
  The f-string handed to \<open>mintpy_config.write_text\<close>, line by line; \<open>{data_dir}\<close> is the
  string of the data directory.  First the burst notebook's.
\<close>

definition mintpy_config :: "string \<Rightarrow> string list" where
  "mintpy_config data_dir =
     ['''',
      ''mintpy.load.processor        = hyp3'',
      ''##---------interferogram datasets:'',
      ''mintpy.load.unwFile          = '' @ data_dir @ ''/*/*_unw_phase_clipped.tif'',
      ''mintpy.load.corFile          = '' @ data_dir @ ''/*/*_corr_clipped.tif'',
      ''mintpy.load.connCompFile     = '' @ data_dir @ ''/*/*_conncomp_clipped.tif'',
      ''##---------geometry datasets:'',
      ''mintpy.load.demFile          = '' @ data_dir @ ''/*/*_dem_clipped.tif'',
      ''mintpy.load.incAngleFile     = '' @ data_dir @ ''/*/*_lv_theta_clipped.tif'',
      ''mintpy.load.azAngleFile      = '' @ data_dir @ ''/*/*_lv_phi_clipped.tif'',
      ''mintpy.load.waterMaskFile    = '' @ data_dir @ ''/*/*_water_mask_clipped.tif'',
      ''mintpy.troposphericDelay.method = no'',
      ''##---------misc:'',
      ''mintpy.plot = no'',
      ''mintpy.network.coherenceBased = no'']"

text \<open>The GAMMA notebook's.\<close>

definition mintpy_config_gamma :: "string \<Rightarrow> string list" where
  "mintpy_config_gamma data_dir =
     ['''',
      ''mintpy.load.processor        = hyp3'',
      ''##---------interferogram datasets'',
      ''mintpy.load.unwFile          = '' @ data_dir @ ''/*/*_unw_phase_clipped.tif'',
      ''mintpy.load.corFile          = '' @ data_dir @ ''/*/*_corr_clipped.tif'',
      ''##---------geometry datasets:'',
      ''mintpy.load.demFile          = '' @ data_dir @ ''/*/*_dem_clipped.tif'',
      ''mintpy.load.incAngleFile     = '' @ data_dir @ ''/*/*_lv_theta_clipped.tif'',
      ''mintpy.load.azAngleFile      = '' @ data_dir @ ''/*/*_lv_phi_clipped.tif'',
      ''mintpy.load.waterMaskFile    = '' @ data_dir @ ''/*/*_water_mask_clipped.tif'',
      ''# mintpy.troposphericDelay.method = no'']"

text \<open>The text written: every line of the f-string ends with a newline.\<close>

definition config_text :: "string list \<Rightarrow> string" where
  "config_text lines = concat (map (\<lambda>line. line @ [CHR 0x0A]) lines)"

text \<open>
  How a \<open>key = value\<close> line of the configuration is read: the line is cut at its first
  \<open>=\<close>, blanks around the key and the value are dropped, and a line without \<open>=\<close> or
  starting with \<open>#\<close> holds no entry.
\<close>

definition lstrip :: "string \<Rightarrow> string" where
  "lstrip s = dropWhile (\<lambda>c. c = CHR '' '') s"

definition rstrip :: "string \<Rightarrow> string" where
  "rstrip s = rev (lstrip (rev s))"

definition config_entry :: "string \<Rightarrow> (string \<times> string) option" where
  "config_entry line =
     (if CHR ''='' \<notin> set line \<or> prefix ''#'' (lstrip line) then None
      else Some (rstrip (lstrip (takeWhile (\<lambda>c. c \<noteq> CHR ''='') line)),
                 rstrip (lstrip (tl (dropWhile (\<lambda>c. c \<noteq> CHR ''='') line)))))"

text \<open>The dataset entries: the entries whose key names a file (\<open>mintpy.load.*File\<close>).\<close>

definition dataset_entries :: "string list \<Rightarrow> (string \<times> string) list" where
  "dataset_entries lines =
     filter (\<lambda>kv. suffix ''File'' (fst kv)) (List.map_filter config_entry lines)"

text \<open>
  A value that names clipped rasters of the data directory: the directory (read as the
  entry's value is, without leading blanks), \<open>/*/*\<close> and the clipped name of one of the
  extensions.  It ends with \<open>_clipped.tif\<close> and with no unclipped extension of the
  notebooks.
\<close>

definition clipped_pattern :: "string list \<Rightarrow> string \<Rightarrow> string \<Rightarrow> bool" where
  "clipped_pattern extensions data_dir v \<longleftrightarrow>
     suffix ''_clipped.tif'' v
     \<and> (\<exists>extension \<in> set extensions. v = lstrip data_dir @ ''/*/*'' @ clipped_extension extension)
     \<and> (\<forall>extension \<in> set files_for_mintpy. \<not> suffix extension v)"

section \<open>Example inputs\<close>

text \<open>Two overlapping rasters, named by their files.\<close>

definition example_info :: "string \<Rightarrow> int corner_coordinates" where
  "example_info dem =
     (if dem = ''p1_dem.tif'' then \<lparr>upperLeft = (0, 10), lowerRight = (8, 2)\<rparr>
      else \<lparr>upperLeft = (2, 12), lowerRight = (10, 4)\<rparr>)"

text \<open>
  A catalog in which the baseline stack of one granule comes back incomplete, and the
  stack of every other granule is \<open>example_stack\<close>.
\<close>

definition example_stack_from_product :: "int scene \<Rightarrow> asf_results" where
  "example_stack_from_product granule =
     \<lparr>products = example_stack,
      searchComplete = (sceneName granule \<noteq> ''S1_372326_IW3_20140613'')\<rparr>"

definition example_granule :: "int scene" where
  "example_granule = \<lparr>sceneName = ''S1_372326_IW3_20140707'', temporalBaseline = 0\<rparr>"

definition incomplete_granule :: "int scene" where
  "incomplete_granule = \<lparr>sceneName = ''S1_372326_IW3_20140613'', temporalBaseline = -24\<rparr>"

definition example_search_results :: asf_results where
  "example_search_results = \<lparr>products = example_stack, searchComplete = True\<rparr>"

definition incomplete_search_results :: asf_results where
  "incomplete_search_results = \<lparr>products = example_stack, searchComplete = False\<rparr>"

text \<open>The notebook's \<open>job_specification\<close>.\<close>

definition example_job_specification :: job where
  "example_job_specification =
     \<lparr>job_type = ''INSAR_GAMMA'', job_name = ''Project Name'', granules = None\<rparr>"

text \<open>The files of one downloaded product.\<close>

definition unw_phase_file :: path where
  "unw_phase_file = \<lparr>parent = ''data/S1_136231_IW2'', name = ''S1_136231_IW2_unw_phase.tif''\<rparr>"

definition conncomp_file :: path where
  "conncomp_file = \<lparr>parent = ''data/S1_136231_IW2'', name = ''S1_136231_IW2_conncomp.tif''\<rparr>"

definition example_tree :: "path list" where
  "example_tree =
     [unw_phase_file, conncomp_file,
      \<lparr>parent = ''data/S1_136231_IW2'', name = ''S1_136231_IW2_dem.tif''\<rparr>,
      \<lparr>parent = ''data/S1_136231_IW2'', name = ''S1_136231_IW2.png''\<rparr>]"

definition example_data_dir :: string where
  "example_data_dir = ''/home/user/2014_mount_edgecumbe/data''"

section \<open>Properties of the pairing loop\<close>

lemma set_set_add: "set (set_add x s) = insert x (set s)"
  by (auto simp: set_add_def)

lemma distinct_set_add: "distinct s \<Longrightarrow> distinct (set_add x s)"
  by (simp add: set_add_def)

lemma set_add_secondaries:
  "set (add_secondaries reference rows sbas) = set sbas \<union> (\<lambda>row. (reference, sceneName row)) ` set rows"
  by (induction rows arbitrary: sbas) (auto simp: set_set_add)

lemma distinct_add_secondaries:
  "distinct sbas \<Longrightarrow> distinct (add_secondaries reference rows sbas)"
  by (induction rows arbitrary: sbas) (simp_all add: distinct_set_add)

lemma set_sbas_loop:
  "set (sbas_loop m stack rs sbas) =
     set sbas \<union> {(sceneName r, sceneName s) | r s.
                    r \<in> set rs \<and> s \<in> set (secondaries m stack (sceneName r) (temporalBaseline r))}"
proof (induction rs arbitrary: sbas)
  case Nil
  show ?case by simp
next
  case (Cons r rs)
  show ?case
    unfolding sbas_loop.simps Cons.IH set_add_secondaries by auto
qed

lemma distinct_sbas_loop:
  "distinct sbas \<Longrightarrow> distinct (sbas_loop m stack rs sbas)"
  by (induction rs arbitrary: sbas) (simp_all add: distinct_add_secondaries)

lemma set_sbas_pairs:
  "set (sbas_pairs m stack) =
     {(sceneName r, sceneName s) | r s.
        r \<in> set stack \<and> s \<in> set stack \<and> sceneName s \<noteq> sceneName r
        \<and> sint (temporalBaseline s - temporalBaseline r) \<le> m
        \<and> 0 < sint (temporalBaseline s - temporalBaseline r)}"
  unfolding sbas_pairs_def set_sbas_loop secondaries_def by auto

lemma distinct_sbas_pairs: "distinct (sbas_pairs m stack)"
  unfolding sbas_pairs_def by (rule distinct_sbas_loop) simp

lemma emitted_rows:
  assumes "(a, b) \<in> set (sbas_pairs m stack)"
  shows "\<exists>r s. r \<in> set stack \<and> s \<in> set stack \<and> sceneName r = a \<and> sceneName s = b
           \<and> sint (temporalBaseline s - temporalBaseline r) \<le> m
           \<and> 0 < sint (temporalBaseline s - temporalBaseline r)"
  using assms unfolding set_sbas_pairs by blast

lemma names_identifyD:
  "names_identify stack \<Longrightarrow> a \<in> set stack \<Longrightarrow> b \<in> set stack \<Longrightarrow> sceneName a = sceneName b
     \<Longrightarrow> temporalBaseline a = temporalBaseline b"
  unfolding names_identify_def by blast

text \<open>The 64-bit subtraction is exact where the difference of the integers fits.\<close>

lemma sint_diff_exact:
  fixes x y :: int64
  assumes "- (2 ^ 63) \<le> sint x - sint y" and "sint x - sint y < 2 ^ 63"
  shows "sint (x - y) = sint x - sint y"
  using assms by (simp add: sint_word_ariths signed_take_bit_int_eq_self)

lemma differences_fitD:
  assumes "differences_fit stack" and "a \<in> set stack" and "b \<in> set stack"
  shows "sint (temporalBaseline b - temporalBaseline a)
           = sint (temporalBaseline b) - sint (temporalBaseline a)"
proof (rule sint_diff_exact)
  from assms show "- (2 ^ 63) \<le> sint (temporalBaseline b) - sint (temporalBaseline a)"
    unfolding differences_fit_def by blast
  from assms show "sint (temporalBaseline b) - sint (temporalBaseline a) < 2 ^ 63"
    unfolding differences_fit_def by blast
qed

text \<open>A positive wrapped difference has a negative wrapped converse.\<close>

lemma sint_diff_antisym:
  fixes x y :: int64
  assumes "0 < sint (x - y)"
  shows "\<not> 0 < sint (y - x)"
proof -
  have lt: "sint (x - y) < 2 ^ 63"
    using sint_lt [of "x - y"] by simp
  have "y - x = - (x - y)" by simp
  then have "sint (y - x) = signed_take_bit 63 (- sint (x - y))"
    by (simp only: sint_word_ariths) simp
  also from assms lt have "\<dots> = - sint (x - y)"
    by (intro signed_take_bit_int_eq_self) simp_all
  finally show ?thesis using assms by simp
qed

lemma sbas_pairs_example:
  "sbas_pairs 24 example_frame =
     [(''S1_372326_IW3_20140613'', ''S1_372326_IW3_20140707''),
      (''S1_372326_IW3_20140601'', ''S1_372326_IW3_20140613'')]"
  by (simp add: sbas_pairs_def example_frame_def secondaries_def set_add_def)

lemma sbas_pairs_overflow:
  "sbas_pairs 24 overflow_stack = [(''R'', ''S'')]"
  by (simp add: sbas_pairs_def overflow_stack_def secondaries_def set_add_def)

lemma sbas_pairs_ambiguous:
  "sbas_pairs 24 ambiguous_stack = [(''B'', ''A''), (''A'', ''B'')]"
  by (simp add: sbas_pairs_def ambiguous_stack_def secondaries_def set_add_def)

text \<open>
  Claim C3.  For the table with the temporal baselines A:0, B:10, C:20, D:50 and
  \<open>max_temporal_baseline = 24\<close> the pairing loop produces exactly the pairs (A,B), (A,C)
  and (B,C); none of (A,D), (B,D), (C,D) is emitted.
\<close>

theorem sbas_pairs_scenario:
  "set (sbas_pairs 24 scenario_stack) = {(''A'', ''B''), (''A'', ''C''), (''B'', ''C'')}
   \<and> (''A'', ''D'') \<notin> set (sbas_pairs 24 scenario_stack)
   \<and> (''B'', ''D'') \<notin> set (sbas_pairs 24 scenario_stack)
   \<and> (''C'', ''D'') \<notin> set (sbas_pairs 24 scenario_stack)"
proof -
  have "sbas_pairs 24 scenario_stack = [(''B'', ''C''), (''A'', ''B''), (''A'', ''C'')]"
    by (simp add: sbas_pairs_def scenario_stack_def secondaries_def set_add_def)
  then show ?thesis by auto
qed

text \<open>
  Claim C1, as stated.  Every emitted pair is claimed to satisfy
  \<open>0 < secondary.temporalBaseline - reference.temporalBaseline \<le> max_temporal_baseline\<close>
  for every scene table.  The loop subtracts in 64 bits: for the baselines
  \<open>R: 9223372036854775803\<close> and \<open>S: -9223372036854775803\<close> the difference \<open>S - R\<close> wraps
  to \<open>10\<close>, and with \<open>max_temporal_baseline = 24\<close> the pair (R, S) is emitted although
  the secondary's baseline lies below the reference's.
\<close>

theorem sbas_pairs_overflow_unsound:
  "\<not> (\<forall>p \<in> set (sbas_pairs 24 overflow_stack).
        \<exists>r \<in> set overflow_stack. \<exists>s \<in> set overflow_stack.
          sceneName r = fst p \<and> sceneName s = snd p
          \<and> 0 < sint (temporalBaseline s) - sint (temporalBaseline r)
          \<and> sint (temporalBaseline s) - sint (temporalBaseline r) \<le> 24)"
  unfolding sbas_pairs_overflow by (simp add: overflow_stack_def)

text \<open>
  Claim C1, amended.  For every scene table and every \<open>max_temporal_baseline\<close> the
  emitted collection holds no pair twice, and every emitted pair has two different names
  and was emitted for a reference row and a secondary row of the table whose 64-bit
  difference \<open>d\<close> of baselines satisfies \<open>0 < d \<le> max_temporal_baseline\<close>.  For every
  table in which no difference of two baselines overflows, every emitted pair satisfies
  \<open>0 < secondary.temporalBaseline - reference.temporalBaseline \<le> max_temporal_baseline\<close>;
  where in addition a scene name stands for one baseline, this holds for all rows that
  carry the two names of an emitted pair.
\<close>

theorem sbas_pairs_sound:
  "distinct (sbas_pairs m stack)
   \<and> (\<forall>p \<in> set (sbas_pairs m stack).
         fst p \<noteq> snd p
         \<and> (\<exists>r \<in> set stack. \<exists>s \<in> set stack.
               sceneName r = fst p \<and> sceneName s = snd p
               \<and> 0 < sint (temporalBaseline s - temporalBaseline r)
               \<and> sint (temporalBaseline s - temporalBaseline r) \<le> m))
   \<and> (differences_fit stack \<longrightarrow>
         (\<forall>p \<in> set (sbas_pairs m stack).
            \<exists>r \<in> set stack. \<exists>s \<in> set stack.
               sceneName r = fst p \<and> sceneName s = snd p
               \<and> 0 < sint (temporalBaseline s) - sint (temporalBaseline r)
               \<and> sint (temporalBaseline s) - sint (temporalBaseline r) \<le> m))
   \<and> (differences_fit stack \<and> names_identify stack \<longrightarrow>
         (\<forall>r \<in> set stack. \<forall>s \<in> set stack.
            (sceneName r, sceneName s) \<in> set (sbas_pairs m stack) \<longrightarrow>
              0 < sint (temporalBaseline s) - sint (temporalBaseline r)
              \<and> sint (temporalBaseline s) - sint (temporalBaseline r) \<le> m))"
proof (intro conjI)
  show "distinct (sbas_pairs m stack)" by (rule distinct_sbas_pairs)
next
  show "\<forall>p \<in> set (sbas_pairs m stack).
         fst p \<noteq> snd p
         \<and> (\<exists>r \<in> set stack. \<exists>s \<in> set stack.
               sceneName r = fst p \<and> sceneName s = snd p
               \<and> 0 < sint (temporalBaseline s - temporalBaseline r)
               \<and> sint (temporalBaseline s - temporalBaseline r) \<le> m)"
    unfolding set_sbas_pairs by fastforce
next
  show "differences_fit stack \<longrightarrow>
         (\<forall>p \<in> set (sbas_pairs m stack).
            \<exists>r \<in> set stack. \<exists>s \<in> set stack.
               sceneName r = fst p \<and> sceneName s = snd p
               \<and> 0 < sint (temporalBaseline s) - sint (temporalBaseline r)
               \<and> sint (temporalBaseline s) - sint (temporalBaseline r) \<le> m)"
  proof (intro impI ballI)
    fix p
    assume fit: "differences_fit stack" and "p \<in> set (sbas_pairs m stack)"
    then have "(fst p, snd p) \<in> set (sbas_pairs m stack)" by simp
    from emitted_rows [OF this] obtain r s where
      r: "r \<in> set stack" and s: "s \<in> set stack"
      and nr: "sceneName r = fst p" and ns: "sceneName s = snd p"
      and le: "sint (temporalBaseline s - temporalBaseline r) \<le> m"
      and pos: "0 < sint (temporalBaseline s - temporalBaseline r)"
      by blast
    from le pos have "0 < sint (temporalBaseline s) - sint (temporalBaseline r)
        \<and> sint (temporalBaseline s) - sint (temporalBaseline r) \<le> m"
      unfolding differences_fitD [OF fit r s] by simp
    with r s nr ns show "\<exists>r \<in> set stack. \<exists>s \<in> set stack.
               sceneName r = fst p \<and> sceneName s = snd p
               \<and> 0 < sint (temporalBaseline s) - sint (temporalBaseline r)
               \<and> sint (temporalBaseline s) - sint (temporalBaseline r) \<le> m"
      by blast
  qed
next
  show "differences_fit stack \<and> names_identify stack \<longrightarrow>
         (\<forall>r \<in> set stack. \<forall>s \<in> set stack.
            (sceneName r, sceneName s) \<in> set (sbas_pairs m stack) \<longrightarrow>
              0 < sint (temporalBaseline s) - sint (temporalBaseline r)
              \<and> sint (temporalBaseline s) - sint (temporalBaseline r) \<le> m)"
  proof (intro impI ballI)
    fix r s
    assume both: "differences_fit stack \<and> names_identify stack"
      and r: "r \<in> set stack" and s: "s \<in> set stack"
      and mem: "(sceneName r, sceneName s) \<in> set (sbas_pairs m stack)"
    from both have fit: "differences_fit stack" and ni: "names_identify stack" by simp_all
    from emitted_rows [OF mem] obtain r' s' where
      r': "r' \<in> set stack" and s': "s' \<in> set stack"
      and nr: "sceneName r' = sceneName r" and ns: "sceneName s' = sceneName s"
      and le: "sint (temporalBaseline s' - temporalBaseline r') \<le> m"
      and pos: "0 < sint (temporalBaseline s' - temporalBaseline r')"
      by blast
    from names_identifyD [OF ni r' r nr] names_identifyD [OF ni s' s ns] le pos
    have "sint (temporalBaseline s - temporalBaseline r) \<le> m"
      and "0 < sint (temporalBaseline s - temporalBaseline r)"
      by simp_all
    then show "0 < sint (temporalBaseline s) - sint (temporalBaseline r)
              \<and> sint (temporalBaseline s) - sint (temporalBaseline r) \<le> m"
      unfolding differences_fitD [OF fit r s] by simp
  qed
qed

theorem sbas_pairs_sound_witness:
  "(''S1_372326_IW3_20140601'', ''S1_372326_IW3_20140613'') \<in> set (sbas_pairs 24 example_frame)
   \<and> differences_fit example_frame
   \<and> names_identify example_frame
   \<and> distinct (sbas_pairs 24 example_frame)
   \<and> (\<exists>r \<in> set example_frame. \<exists>s \<in> set example_frame.
         sceneName r = ''S1_372326_IW3_20140601'' \<and> sceneName s = ''S1_372326_IW3_20140613''
         \<and> 0 < sint (temporalBaseline s) - sint (temporalBaseline r)
         \<and> sint (temporalBaseline s) - sint (temporalBaseline r) \<le> 24)"
proof -
  have mem: "(''S1_372326_IW3_20140601'', ''S1_372326_IW3_20140613'')
               \<in> set (sbas_pairs 24 example_frame)"
    by (simp add: sbas_pairs_example)
  have fit: "differences_fit example_frame"
    by (simp add: differences_fit_def example_frame_def)
  have ni: "names_identify example_frame"
    by (simp add: names_identify_def example_frame_def)
  from sbas_pairs_sound [of 24 example_frame] fit have
    "distinct (sbas_pairs 24 example_frame)"
    and all: "\<forall>p \<in> set (sbas_pairs 24 example_frame).
         \<exists>r \<in> set example_frame. \<exists>s \<in> set example_frame.
               sceneName r = fst p \<and> sceneName s = snd p
               \<and> 0 < sint (temporalBaseline s) - sint (temporalBaseline r)
               \<and> sint (temporalBaseline s) - sint (temporalBaseline r) \<le> 24"
    by blast+
  moreover from all mem have
    "\<exists>r \<in> set example_frame. \<exists>s \<in> set example_frame.
         sceneName r = ''S1_372326_IW3_20140601'' \<and> sceneName s = ''S1_372326_IW3_20140613''
         \<and> 0 < sint (temporalBaseline s) - sint (temporalBaseline r)
         \<and> sint (temporalBaseline s) - sint (temporalBaseline r) \<le> 24"
    by fastforce
  ultimately show ?thesis using mem fit ni by blast
qed



text \<open>
  Claim C9, as stated.  The reference of every emitted pair is claimed to have the
  strictly smaller temporal baseline, and the set is claimed never to hold both \<open>(r, s)\<close>
  and \<open>(s, r)\<close>.  The pairs hold names: in a table where one name stands on two rows with
  different baselines the loop emits a pair in both directions.  And the loop subtracts
  in 64 bits: in a table with an overflowing difference it emits a pair whose reference
  has the larger baseline.
\<close>

theorem sbas_pairs_both_directions:
  "\<not> (\<forall>a b. (a, b) \<in> set (sbas_pairs 24 ambiguous_stack) \<longrightarrow>
               (b, a) \<notin> set (sbas_pairs 24 ambiguous_stack))
   \<and> \<not> (\<forall>p \<in> set (sbas_pairs 24 overflow_stack).
          \<exists>r \<in> set overflow_stack. \<exists>s \<in> set overflow_stack.
            sceneName r = fst p \<and> sceneName s = snd p
            \<and> sint (temporalBaseline r) < sint (temporalBaseline s))"
proof
  have "(''A'', ''B'') \<in> set (sbas_pairs 24 ambiguous_stack)"
    and "(''B'', ''A'') \<in> set (sbas_pairs 24 ambiguous_stack)"
    unfolding sbas_pairs_ambiguous by simp_all
  then show "\<not> (\<forall>a b. (a, b) \<in> set (sbas_pairs 24 ambiguous_stack) \<longrightarrow>
               (b, a) \<notin> set (sbas_pairs 24 ambiguous_stack))"
    by blast
next
  show "\<not> (\<forall>p \<in> set (sbas_pairs 24 overflow_stack).
          \<exists>r \<in> set overflow_stack. \<exists>s \<in> set overflow_stack.
            sceneName r = fst p \<and> sceneName s = snd p
            \<and> sint (temporalBaseline r) < sint (temporalBaseline s))"
    unfolding sbas_pairs_overflow by (simp add: overflow_stack_def)
qed

text \<open>
  Claim C9, amended.  No two rows select each other as secondaries.  In a table in which
  no difference of two baselines overflows, every pair is emitted for a reference row
  whose temporal baseline is strictly less than the secondary row's.  In a table where a
  scene name stands for one baseline the set never holds both \<open>(r, s)\<close> and \<open>(s, r)\<close>, and
  if in addition no difference overflows, the rows named by an emitted pair have the
  strictly smaller baseline on the reference.
\<close>

theorem sbas_pairs_oriented:
  "(differences_fit stack \<longrightarrow>
      (\<forall>p \<in> set (sbas_pairs m stack).
         \<exists>r \<in> set stack. \<exists>s \<in> set stack.
           sceneName r = fst p \<and> sceneName s = snd p
           \<and> sint (temporalBaseline r) < sint (temporalBaseline s)))
   \<and> (\<forall>r s. s \<in> set (secondaries m stack (sceneName r) (temporalBaseline r)) \<longrightarrow>
         r \<notin> set (secondaries m stack (sceneName s) (temporalBaseline s)))
   \<and> (differences_fit stack \<and> names_identify stack \<longrightarrow>
         (\<forall>r \<in> set stack. \<forall>s \<in> set stack.
            (sceneName r, sceneName s) \<in> set (sbas_pairs m stack) \<longrightarrow>
              sint (temporalBaseline r) < sint (temporalBaseline s)))
   \<and> (names_identify stack \<longrightarrow>
         (\<forall>a b. (a, b) \<in> set (sbas_pairs m stack) \<longrightarrow> (b, a) \<notin> set (sbas_pairs m stack)))"
proof (intro conjI)
  show "differences_fit stack \<longrightarrow>
      (\<forall>p \<in> set (sbas_pairs m stack).
         \<exists>r \<in> set stack. \<exists>s \<in> set stack.
           sceneName r = fst p \<and> sceneName s = snd p
           \<and> sint (temporalBaseline r) < sint (temporalBaseline s))"
  proof (intro impI ballI)
    fix p
    assume fit: "differences_fit stack" and "p \<in> set (sbas_pairs m stack)"
    then have "(fst p, snd p) \<in> set (sbas_pairs m stack)" by simp
    from emitted_rows [OF this] obtain r s where
      r: "r \<in> set stack" and s: "s \<in> set stack"
      and nr: "sceneName r = fst p" and ns: "sceneName s = snd p"
      and pos: "0 < sint (temporalBaseline s - temporalBaseline r)"
      by blast
    from pos have "sint (temporalBaseline r) < sint (temporalBaseline s)"
      unfolding differences_fitD [OF fit r s] by simp
    with r s nr ns show "\<exists>r \<in> set stack. \<exists>s \<in> set stack.
           sceneName r = fst p \<and> sceneName s = snd p
           \<and> sint (temporalBaseline r) < sint (temporalBaseline s)"
      by blast
  qed
next
  show "\<forall>r s. s \<in> set (secondaries m stack (sceneName r) (temporalBaseline r)) \<longrightarrow>
         r \<notin> set (secondaries m stack (sceneName s) (temporalBaseline s))"
    using sint_diff_antisym by (auto simp: secondaries_def)
next
  show "differences_fit stack \<and> names_identify stack \<longrightarrow>
         (\<forall>r \<in> set stack. \<forall>s \<in> set stack.
            (sceneName r, sceneName s) \<in> set (sbas_pairs m stack) \<longrightarrow>
              sint (temporalBaseline r) < sint (temporalBaseline s))"
  proof (intro impI ballI)
    fix r s
    assume both: "differences_fit stack \<and> names_identify stack"
      and r: "r \<in> set stack" and s: "s \<in> set stack"
      and mem: "(sceneName r, sceneName s) \<in> set (sbas_pairs m stack)"
    from both have fit: "differences_fit stack" and ni: "names_identify stack" by simp_all
    from emitted_rows [OF mem] obtain r' s' where
      r': "r' \<in> set stack" and s': "s' \<in> set stack"
      and nr: "sceneName r' = sceneName r" and ns: "sceneName s' = sceneName s"
      and pos: "0 < sint (temporalBaseline s' - temporalBaseline r')"
      by blast
    from names_identifyD [OF ni r' r nr] names_identifyD [OF ni s' s ns] pos
    have "0 < sint (temporalBaseline s - temporalBaseline r)" by simp
    then show "sint (temporalBaseline r) < sint (temporalBaseline s)"
      unfolding differences_fitD [OF fit r s] by simp
  qed
next
  show "names_identify stack \<longrightarrow>
         (\<forall>a b. (a, b) \<in> set (sbas_pairs m stack) \<longrightarrow> (b, a) \<notin> set (sbas_pairs m stack))"
  proof (intro impI allI notI)
    fix a b
    assume ni: "names_identify stack"
      and ab: "(a, b) \<in> set (sbas_pairs m stack)" and ba: "(b, a) \<in> set (sbas_pairs m stack)"
    from emitted_rows [OF ab] obtain r s where
      r: "r \<in> set stack" and s: "s \<in> set stack"
      and nr: "sceneName r = a" and ns: "sceneName s = b"
      and rs: "0 < sint (temporalBaseline s - temporalBaseline r)"
      by blast
    from emitted_rows [OF ba] obtain s' r' where
      s': "s' \<in> set stack" and r': "r' \<in> set stack"
      and ns': "sceneName s' = b" and nr': "sceneName r' = a"
      and sr: "0 < sint (temporalBaseline r' - temporalBaseline s')"
      by blast
    from nr nr' have "sceneName r = sceneName r'" by simp
    from names_identifyD [OF ni r r' this] have er: "temporalBaseline r = temporalBaseline r'" .
    from ns ns' have "sceneName s = sceneName s'" by simp
    from names_identifyD [OF ni s s' this] have es: "temporalBaseline s = temporalBaseline s'" .
    from sr er es have "0 < sint (temporalBaseline r - temporalBaseline s)" by simp
    with sint_diff_antisym [OF rs] show False by simp
  qed
qed

theorem sbas_pairs_oriented_witness:
  "(''A'', ''B'') \<in> set (sbas_pairs 24 scenario_stack)
   \<and> differences_fit scenario_stack
   \<and> names_identify scenario_stack
   \<and> (''B'', ''A'') \<notin> set (sbas_pairs 24 scenario_stack)
   \<and> (\<exists>r \<in> set scenario_stack. \<exists>s \<in> set scenario_stack.
         sceneName r = ''A'' \<and> sceneName s = ''B''
         \<and> sint (temporalBaseline r) < sint (temporalBaseline s))"
proof -
  have mem: "(''A'', ''B'') \<in> set (sbas_pairs 24 scenario_stack)"
    by (simp add: sbas_pairs_def scenario_stack_def secondaries_def set_add_def)
  have fit: "differences_fit scenario_stack"
    by (simp add: differences_fit_def scenario_stack_def)
  have ni: "names_identify scenario_stack"
    by (simp add: names_identify_def scenario_stack_def)
  from sbas_pairs_oriented [of scenario_stack 24] fit ni have
    rows: "\<forall>p \<in> set (sbas_pairs 24 scenario_stack).
      \<exists>r \<in> set scenario_stack. \<exists>s \<in> set scenario_stack.
        sceneName r = fst p \<and> sceneName s = snd p
        \<and> sint (temporalBaseline r) < sint (temporalBaseline s)"
    and never: "\<forall>a b. (a, b) \<in> set (sbas_pairs 24 scenario_stack) \<longrightarrow>
                  (b, a) \<notin> set (sbas_pairs 24 scenario_stack)"
    by blast+
  from never mem have "(''B'', ''A'') \<notin> set (sbas_pairs 24 scenario_stack)" by blast
  moreover from rows mem have
    "\<exists>r \<in> set scenario_stack. \<exists>s \<in> set scenario_stack.
         sceneName r = ''A'' \<and> sceneName s = ''B''
         \<and> sint (temporalBaseline r) < sint (temporalBaseline s)"
    by fastforce
  ultimately show ?thesis using mem fit ni by blast
qed

section \<open>Properties of the common overlap\<close>

lemma max_loop_fold: "max_loop m xs = fold max xs m"
  by (induction xs arbitrary: m) (auto simp: max_def)

lemma min_loop_fold: "min_loop m xs = fold min xs m"
  by (induction xs arbitrary: m) (auto simp: min_def)

lemma py_max_Max:
  assumes "xs \<noteq> []"
  shows "py_max xs = Inr (Max (set xs))"
proof -
  from assms obtain x rest where xs: "xs = x # rest" by (cases xs) auto
  show ?thesis
    unfolding xs py_max.simps max_loop_fold Max.set_eq_fold ..
qed

lemma py_min_Min:
  assumes "xs \<noteq> []"
  shows "py_min xs = Inr (Min (set xs))"
proof -
  from assms obtain x rest where xs: "xs = x # rest" by (cases xs) auto
  show ?thesis
    unfolding xs py_min.simps min_loop_fold Min.set_eq_fold ..
qed

lemma get_common_overlap_nonempty:
  assumes "file_list \<noteq> []"
  shows "get_common_overlap gdal_info file_list =
           Inr [Max ((\<lambda>f. fst (upperLeft (gdal_info f))) ` set file_list),
                Min ((\<lambda>f. snd (upperLeft (gdal_info f))) ` set file_list),
                Min ((\<lambda>f. fst (lowerRight (gdal_info f))) ` set file_list),
                Max ((\<lambda>f. snd (lowerRight (gdal_info f))) ` set file_list)]"
  using assms
  by (simp add: get_common_overlap_def py_max_Max py_min_Min image_image)

lemma get_common_overlap_empty: "get_common_overlap gdal_info [] = Inl ValueError"
  by (simp add: get_common_overlap_def)

lemma example_overlap:
  "get_common_overlap example_info [''p1_dem.tif'', ''p2_dem.tif''] = Inr [2, 10, 8, 4]"
  by (simp add: get_common_overlap_def example_info_def)

text \<open>
  Claim C4.  \<open>get_common_overlap\<close> computes the intersection of the bounding boxes: for
  every non-empty list of rasters it returns \<open>[ulx, uly, lrx, lry]\<close> with \<open>ulx\<close> the
  maximum of the upper-left x's, \<open>uly\<close> the minimum of the upper-left y's, \<open>lrx\<close> the
  minimum of the lower-right x's and \<open>lry\<close> the maximum of the lower-right y's; a point
  lies in the returned window exactly when it lies in the bounding box of every input
  raster.
\<close>

theorem get_common_overlap_intersection:
  assumes "file_list \<noteq> []"
  shows "\<exists>ulx uly lrx lry.
     get_common_overlap gdal_info file_list = Inr [ulx, uly, lrx, lry]
     \<and> ulx = Max ((\<lambda>f. fst (upperLeft (gdal_info f))) ` set file_list)
     \<and> uly = Min ((\<lambda>f. snd (upperLeft (gdal_info f))) ` set file_list)
     \<and> lrx = Min ((\<lambda>f. fst (lowerRight (gdal_info f))) ` set file_list)
     \<and> lry = Max ((\<lambda>f. snd (lowerRight (gdal_info f))) ` set file_list)
     \<and> (\<forall>p. in_proj_win [ulx, uly, lrx, lry] p
              \<longleftrightarrow> (\<forall>f \<in> set file_list. in_bounding_box (gdal_info f) p))"
proof -
  have "in_proj_win [Max ((\<lambda>f. fst (upperLeft (gdal_info f))) ` set file_list),
                Min ((\<lambda>f. snd (upperLeft (gdal_info f))) ` set file_list),
                Min ((\<lambda>f. fst (lowerRight (gdal_info f))) ` set file_list),
                Max ((\<lambda>f. snd (lowerRight (gdal_info f))) ` set file_list)] p
        \<longleftrightarrow> (\<forall>f \<in> set file_list. in_bounding_box (gdal_info f) p)" for p
    using assms by (auto simp: in_bounding_box_def)
  then show ?thesis
    using get_common_overlap_nonempty [OF assms, of gdal_info] by blast
qed

theorem get_common_overlap_intersection_witness:
  "[''p1_dem.tif'', ''p2_dem.tif''] \<noteq> []
   \<and> get_common_overlap example_info [''p1_dem.tif'', ''p2_dem.tif''] = Inr [2, 10, 8, 4]
   \<and> in_proj_win [2, 10, 8, 4] (5, 5 :: int)
   \<and> in_bounding_box (example_info ''p1_dem.tif'') (5, 5)
   \<and> in_bounding_box (example_info ''p2_dem.tif'') (5, 5)
   \<and> \<not> in_bounding_box (example_info ''p1_dem.tif'') (9, 5)
   \<and> \<not> in_proj_win [2, 10, 8, 4] (9, 5 :: int)"
proof -
  have ne: "[''p1_dem.tif'', ''p2_dem.tif''] \<noteq> []" by simp
  from get_common_overlap_intersection [OF ne, of example_info] obtain ulx uly lrx lry where
    box: "get_common_overlap example_info [''p1_dem.tif'', ''p2_dem.tif''] = Inr [ulx, uly, lrx, lry]"
    and pts: "\<And>p. in_proj_win [ulx, uly, lrx, lry] p
              \<longleftrightarrow> (\<forall>f \<in> set [''p1_dem.tif'', ''p2_dem.tif'']. in_bounding_box (example_info f) p)"
    by blast
  from box have eq: "[ulx, uly, lrx, lry] = [2, 10, 8, 4]"
    by (simp add: example_overlap)
  have inside: "in_bounding_box (example_info ''p1_dem.tif'') (5, 5)"
    "in_bounding_box (example_info ''p2_dem.tif'') (5, 5)"
    and outside: "\<not> in_bounding_box (example_info ''p1_dem.tif'') (9, 5)"
    by (simp_all add: in_bounding_box_def example_info_def)
  from pts [of "(5, 5)"] inside have "in_proj_win [ulx, uly, lrx, lry] (5, 5)" by simp
  moreover from pts [of "(9, 5)"] outside have "\<not> in_proj_win [ulx, uly, lrx, lry] (9, 5)" by simp
  ultimately show ?thesis
    using inside outside box unfolding eq by simp
qed

text \<open>
  Claim C8.  \<open>get_common_overlap\<close> needs a non-empty input: for every non-empty list
  of rasters it returns a list of four coordinates, and for the empty list the maximum over
  an empty sequence raises \<open>ValueError\<close> instead of returning a value.
\<close>

theorem get_common_overlap_total_on_nonempty:
  "(file_list \<noteq> [] \<longrightarrow>
      (\<exists>box. get_common_overlap gdal_info file_list = Inr box \<and> length box = 4))
   \<and> (file_list = [] \<longrightarrow> get_common_overlap gdal_info file_list = Inl ValueError)"
  using get_common_overlap_nonempty [of file_list gdal_info]
  by (auto simp: get_common_overlap_empty)

theorem get_common_overlap_total_on_nonempty_witness:
  "[''p2_dem.tif''] \<noteq> []
   \<and> (\<exists>box. get_common_overlap example_info [''p2_dem.tif''] = Inr box \<and> length box = 4)
   \<and> get_common_overlap example_info [] = Inl ValueError"
  using get_common_overlap_total_on_nonempty [of "[''p2_dem.tif'']" example_info]
    get_common_overlap_total_on_nonempty [of "[]" example_info]
  by simp

section \<open>Properties of the new-granule workflow\<close>

lemma length_py_slice_from_neg:
  "0 < depth \<Longrightarrow> int (length (py_slice_from (- depth) xs)) \<le> depth"
  by (auto simp: py_slice_from_def Let_def max_def)

lemma set_py_slice_from: "set (py_slice_from i xs) \<subseteq> set xs"
  by (simp add: py_slice_from_def Let_def set_drop_subset)

lemma get_neighbors_incomplete:
  "\<not> searchComplete (stack_from_product granule) \<Longrightarrow>
     get_neighbors stack_from_product granule platform depth = Inl ASFSearchError"
  by (simp add: get_neighbors_def raise_if_incomplete_def)

lemma get_neighbors_complete:
  "searchComplete (stack_from_product granule) \<Longrightarrow>
     \<exists>neighbors. get_neighbors stack_from_product granule platform depth = Inr neighbors"
  by (simp add: get_neighbors_def raise_if_incomplete_def Let_def)

lemma get_jobs_for_granule_incomplete:
  "\<not> searchComplete (stack_from_product granule) \<Longrightarrow>
     get_jobs_for_granule stack_from_product job_specification platform granule = Inl ASFSearchError"
  by (simp add: get_jobs_for_granule_def get_neighbors_incomplete)

lemma get_jobs_for_granule_complete:
  "searchComplete (stack_from_product granule) \<Longrightarrow>
     \<exists>js. get_jobs_for_granule stack_from_product job_specification platform granule = Inr js"
  using get_neighbors_complete [of stack_from_product granule platform 2]
  by (auto simp: get_jobs_for_granule_def)

text \<open>A batch yields its jobs when every stack in it is complete, and the error otherwise.\<close>

lemma new_jobs_cases:
  "(if \<forall>g \<in> set batch. searchComplete (stack_from_product g)
    then \<exists>js. new_jobs stack_from_product job_specification platform batch = Inr js
    else new_jobs stack_from_product job_specification platform batch = Inl ASFSearchError)"
proof (induction batch)
  case Nil
  show ?case by simp
next
  case (Cons g batch)
  show ?case
  proof (cases "searchComplete (stack_from_product g)")
    case False
    then show ?thesis by (simp add: get_jobs_for_granule_incomplete)
  next
    case True
    from True get_jobs_for_granule_complete [of stack_from_product g job_specification platform]
    obtain js where
      "get_jobs_for_granule stack_from_product job_specification platform g = Inr js" by blast
    with True Cons.IH show ?thesis by (auto split: if_splits)
  qed
qed

text \<open>
  The submission loop hands over the batches in front of the first one with an incomplete
  stack, and nothing after it.
\<close>

lemma submit_batches_result:
  "submit_batches stack_from_product job_specification platform bs submitted = (sent, outcome) \<Longrightarrow>
     length sent = length submitted
        + length (takeWhile (\<lambda>batch. \<forall>g \<in> set batch. searchComplete (stack_from_product g)) bs)
     \<and> prefix submitted sent
     \<and> outcome = (if \<forall>batch \<in> set bs. \<forall>g \<in> set batch. searchComplete (stack_from_product g)
                  then Inr () else Inl ASFSearchError)"
proof (induction bs arbitrary: submitted)
  case Nil
  then show ?case by simp
next
  case (Cons batch bs)
  show ?case
  proof (cases "\<forall>g \<in> set batch. searchComplete (stack_from_product g)")
    case False
    with new_jobs_cases [of batch stack_from_product job_specification platform]
    have "new_jobs stack_from_product job_specification platform batch = Inl ASFSearchError" by simp
    with Cons.prems False show ?thesis by auto
  next
    case True
    with new_jobs_cases [of batch stack_from_product job_specification platform]
    obtain js where js: "new_jobs stack_from_product job_specification platform batch = Inr js" by auto
    with Cons.prems have
      "submit_batches stack_from_product job_specification platform bs (submitted @ [js]) = (sent, outcome)"
      by simp
    from Cons.IH [OF this] True show ?thesis
      by (auto dest: append_prefixD)
  qed
qed

lemma concat_batches: "concat (batches xs) = xs"
proof (induction xs rule: batches.induct)
  case (1 xs)
  show ?case
  proof (cases "xs = []")
    case True
    then show ?thesis by (subst batches.simps) simp
  next
    case False
    with "1.IH" have "concat (batches (drop batch_size xs)) = drop batch_size xs" by simp
    with False show ?thesis
      by (subst batches.simps) simp
  qed
qed

lemma set_batches: "(\<forall>batch \<in> set (batches xs). \<forall>g \<in> set batch. P g) \<longleftrightarrow> (\<forall>g \<in> set xs. P g)"
proof -
  have "(\<forall>batch \<in> set (batches xs). \<forall>g \<in> set batch. P g)
          \<longleftrightarrow> (\<forall>g \<in> set (concat (batches xs)). P g)"
    by auto
  then show ?thesis by (simp only: concat_batches)
qed

lemma process_new_granules_incomplete:
  "\<not> searchComplete search_results \<Longrightarrow>
     process_new_granules processed search_results stack_from_product job_specification platform
       = ([], Inl ASFSearchError)"
  by (simp add: process_new_granules_def raise_if_incomplete_def)

lemma process_new_granules_complete:
  assumes "searchComplete search_results"
  shows "length (fst (process_new_granules processed search_results stack_from_product
                        job_specification platform))
           = length (takeWhile (\<lambda>batch. \<forall>g \<in> set batch. searchComplete (stack_from_product g))
                       (batches (unprocessed_granules processed search_results)))
         \<and> snd (process_new_granules processed search_results stack_from_product
                  job_specification platform)
           = (if \<forall>g \<in> set (unprocessed_granules processed search_results).
                    searchComplete (stack_from_product g)
              then Inr () else Inl ASFSearchError)"
proof -
  obtain sent outcome where
    run: "submit_batches stack_from_product job_specification platform
            (batches (unprocessed_granules processed search_results)) [] = (sent, outcome)"
    by (cases "submit_batches stack_from_product job_specification platform
            (batches (unprocessed_granules processed search_results)) []") blast
  from assms run have
    "process_new_granules processed search_results stack_from_product job_specification platform
       = (sent, outcome)"
    by (simp add: process_new_granules_def raise_if_incomplete_def)
  with submit_batches_result [OF run] show ?thesis
    by (simp add: set_batches)
qed

text \<open>
  Claim C5.  Incomplete results propagate without recovery.  When the catalog search is
  incomplete, the workflow ends with the search error and submits nothing.  When the
  baseline stack of a granule is incomplete, \<open>get_neighbors\<close> and \<open>get_jobs_for_granule\<close>
  end with that error.  For a complete stack \<open>get_neighbors\<close> returns.  After a complete
  search the workflow submits the batches in front of the first one that holds a granule
  with an incomplete stack and nothing from there on; it ends normally exactly when the
  stack of every unprocessed granule is complete, and with the search error otherwise.
\<close>

theorem incomplete_results_propagate:
  "(\<not> searchComplete search_results \<longrightarrow>
      process_new_granules processed search_results stack_from_product job_specification platform
        = ([], Inl ASFSearchError))
   \<and> (\<not> searchComplete (stack_from_product granule) \<longrightarrow>
        get_neighbors stack_from_product granule platform depth = Inl ASFSearchError
        \<and> get_jobs_for_granule stack_from_product job_specification platform granule
            = Inl ASFSearchError)
   \<and> (searchComplete (stack_from_product granule) \<longrightarrow>
        (\<exists>neighbors. get_neighbors stack_from_product granule platform depth = Inr neighbors)
        \<and> (\<exists>js. get_jobs_for_granule stack_from_product job_specification platform granule = Inr js))
   \<and> (searchComplete search_results \<longrightarrow>
        length (fst (process_new_granules processed search_results stack_from_product
                       job_specification platform))
          = length (takeWhile (\<lambda>batch. \<forall>g \<in> set batch. searchComplete (stack_from_product g))
                      (batches (unprocessed_granules processed search_results)))
        \<and> snd (process_new_granules processed search_results stack_from_product
                 job_specification platform)
          = (if \<forall>g \<in> set (unprocessed_granules processed search_results).
                   searchComplete (stack_from_product g)
             then Inr () else Inl ASFSearchError))"
  using process_new_granules_incomplete [of search_results processed stack_from_product
      job_specification platform]
    get_neighbors_incomplete [of stack_from_product granule platform depth]
    get_jobs_for_granule_incomplete [of stack_from_product granule job_specification platform]
    get_neighbors_complete [of stack_from_product granule platform depth]
    get_jobs_for_granule_complete [of stack_from_product granule job_specification platform]
    process_new_granules_complete [of search_results processed stack_from_product
      job_specification platform]
  by blast

theorem incomplete_results_propagate_witness:
  "\<not> searchComplete incomplete_search_results
   \<and> process_new_granules [] incomplete_search_results example_stack_from_product
        example_job_specification ''S1'' = ([], Inl ASFSearchError)
   \<and> \<not> searchComplete (example_stack_from_product incomplete_granule)
   \<and> get_neighbors example_stack_from_product incomplete_granule ''S1'' 2 = Inl ASFSearchError
   \<and> searchComplete (example_stack_from_product example_granule)
   \<and> (\<exists>neighbors. get_neighbors example_stack_from_product example_granule ''S1'' 2 = Inr neighbors)
   \<and> searchComplete example_search_results
   \<and> snd (process_new_granules [''S1_372326_IW3_20140613''] example_search_results
            example_stack_from_product example_job_specification ''S1'') = Inr ()
   \<and> snd (process_new_granules [] example_search_results
            example_stack_from_product example_job_specification ''S1'') = Inl ASFSearchError"
proof -
  have a: "\<not> searchComplete incomplete_search_results"
    by (simp add: incomplete_search_results_def)
  have b: "\<not> searchComplete (example_stack_from_product incomplete_granule)"
    by (simp add: example_stack_from_product_def incomplete_granule_def)
  have c: "searchComplete (example_stack_from_product example_granule)"
    by (simp add: example_stack_from_product_def example_granule_def)
  have d: "searchComplete example_search_results"
    by (simp add: example_search_results_def)
  have e: "\<forall>g \<in> set (unprocessed_granules [''S1_372326_IW3_20140613''] example_search_results).
             searchComplete (example_stack_from_product g)"
    by (simp add: unprocessed_granules_def example_search_results_def example_stack_def
          example_stack_from_product_def)
  have f: "\<not> (\<forall>g \<in> set (unprocessed_granules [] example_search_results).
             searchComplete (example_stack_from_product g))"
    by (simp add: unprocessed_granules_def example_search_results_def example_stack_def
          example_stack_from_product_def)
  from a incomplete_results_propagate [of incomplete_search_results "[]"
      example_stack_from_product example_job_specification "''S1''"]
  have "process_new_granules [] incomplete_search_results example_stack_from_product
        example_job_specification ''S1'' = ([], Inl ASFSearchError)"
    by blast
  moreover from b incomplete_results_propagate [of _ _ example_stack_from_product _ _
      incomplete_granule 2]
  have "get_neighbors example_stack_from_product incomplete_granule ''S1'' 2 = Inl ASFSearchError"
    by blast
  moreover from c incomplete_results_propagate [of _ _ example_stack_from_product _ _
      example_granule 2]
  have "\<exists>neighbors. get_neighbors example_stack_from_product example_granule ''S1'' 2 = Inr neighbors"
    by blast
  moreover from d e incomplete_results_propagate [of example_search_results
      "[''S1_372326_IW3_20140613'']" example_stack_from_product example_job_specification "''S1''"]
  have "snd (process_new_granules [''S1_372326_IW3_20140613''] example_search_results
            example_stack_from_product example_job_specification ''S1'') = Inr ()"
    by simp
  moreover from d f incomplete_results_propagate [of example_search_results
      "[]" example_stack_from_product example_job_specification "''S1''"]
  have "snd (process_new_granules [] example_search_results
            example_stack_from_product example_job_specification ''S1'') = Inl ASFSearchError"
    by simp
  ultimately show ?thesis using a b c d by blast
qed

text \<open>
  What \<open>get_neighbors\<close> returns: for every depth each name is the name of a stack item
  acquired before the granule (negative temporal baseline) that starts with the platform
  prefix, and for every positive depth there are at most \<open>depth\<close> names.
\<close>

lemma get_neighbors_postcondition:
  assumes "get_neighbors stack_from_product granule platform depth = Inr neighbors"
  shows "(0 < depth \<longrightarrow> int (length neighbors) \<le> depth)
         \<and> (\<forall>n \<in> set neighbors.
               \<exists>item \<in> set (products (stack_from_product granule)).
                 sceneName item = n \<and> temporalBaseline item < 0 \<and> prefix platform n)"
proof -
  let ?kept = "filter (\<lambda>item. temporalBaseline item < 0 \<and> prefix platform (sceneName item))
                 (products (stack_from_product granule))"
  from assms have ns: "neighbors = map sceneName (py_slice_from (- depth) ?kept)"
    by (auto simp: get_neighbors_def Let_def raise_if_incomplete_def split: if_splits)
  have "0 < depth \<longrightarrow> int (length neighbors) \<le> depth"
    unfolding ns using length_py_slice_from_neg [of depth ?kept] by simp
  moreover have "\<forall>n \<in> set neighbors.
               \<exists>item \<in> set (products (stack_from_product granule)).
                 sceneName item = n \<and> temporalBaseline item < 0 \<and> prefix platform n"
    unfolding ns using set_py_slice_from [of "- depth" ?kept] by auto
  ultimately show ?thesis by blast
qed

text \<open>
  Claim C10.  \<open>get_neighbors\<close> is claimed to return at most \<open>depth\<close> scene names for every
  granule, platform and depth, each from a stack item with a negative temporal baseline
  and the platform prefix.  The bound fails at \<open>depth = 0\<close>: the slice \<open>stack[-0:]\<close> is the
  whole list, so the call returns every earlier scene of the platform, here two names
  where the claim allows none.
\<close>

theorem get_neighbors_depth_zero:
  "get_neighbors example_stack_from_product example_granule ''S1'' 0
     = Inr [''S1_372326_IW3_20140601'', ''S1_372326_IW3_20140613'']"
  by (simp add: get_neighbors_def raise_if_incomplete_def example_stack_from_product_def
        example_granule_def example_stack_def py_slice_from_def)

section \<open>Properties of the clipping loop\<close>

lemma rfind_dot_tif: "rfind (CHR ''.'') (body @ ''.tif'') = Some (length body)"
  by (simp add: rfind_def)

lemma path_suffix_tif: "body \<noteq> [] \<Longrightarrow> path_suffix (body @ ''.tif'') = ''.tif''"
  by (simp add: path_suffix_def rfind_dot_tif)

lemma path_stem_tif: "body \<noteq> [] \<Longrightarrow> path_stem (body @ ''.tif'') = body"
  by (simp add: path_stem_def rfind_dot_tif)

lemma dst_file_tif:
  "body \<noteq> [] \<Longrightarrow> name file = body @ ''.tif'' \<Longrightarrow>
     dst_file file = \<lparr>parent = parent file, name = body @ ''_clipped.tif''\<rparr>"
  by (simp add: dst_file_def path_suffix_tif path_stem_tif)

lemma mintpy_extension_cases:
  "extension \<in> set files_for_mintpy \<Longrightarrow> \<exists>e. e \<noteq> [] \<and> extension = e @ ''.tif''"
  by (auto simp: files_for_mintpy_def)

lemma gamma_extensions_subset: "set files_for_mintpy_gamma \<subseteq> set files_for_mintpy"
  by (simp add: files_for_mintpy_gamma_def files_for_mintpy_def)

lemma mintpy_product_name:
  assumes "extension \<in> set files_for_mintpy" and "suffix extension nm"
  shows "\<exists>body. body \<noteq> [] \<and> nm = body @ ''.tif''"
proof -
  from assms(1) obtain e where e: "e \<noteq> []" "extension = e @ ''.tif''"
    using mintpy_extension_cases by blast
  from assms(2) obtain pre where "nm = pre @ extension" by (auto simp: suffix_def)
  with e have "nm = (pre @ e) @ ''.tif''" "pre @ e \<noteq> []" by simp_all
  then show ?thesis by blast
qed

lemma set_clip_products:
  "set (clip_products extensions tree overlap) =
     {\<lparr>destName = dst_file file, srcDS = file, projWin = overlap\<rparr> | file extension.
        file \<in> set tree \<and> extension \<in> set extensions \<and> suffix extension (name file)}"
  by (auto simp: clip_products_def rglob_def)

lemma clip_products_clips:
  assumes "file \<in> set tree" and "extension \<in> set extensions" and "suffix extension (name file)"
    and "set extensions \<subseteq> set files_for_mintpy"
  shows "\<exists>stem. stem \<noteq> [] \<and> name file = stem @ ''.tif''
           \<and> \<lparr>destName = \<lparr>parent = parent file, name = stem @ ''_clipped.tif''\<rparr>,
               srcDS = file, projWin = overlap\<rparr> \<in> set (clip_products extensions tree overlap)"
proof -
  from assms(2,4) have "extension \<in> set files_for_mintpy" by blast
  from mintpy_product_name [OF this assms(3)] obtain body where
    body: "body \<noteq> []" "name file = body @ ''.tif''" by blast
  have "\<lparr>destName = dst_file file, srcDS = file, projWin = overlap\<rparr>
          \<in> set (clip_products extensions tree overlap)"
    unfolding set_clip_products using assms(1-3) by blast
  with body show ?thesis
    using dst_file_tif [OF body] by auto
qed

text \<open>
  A clipped file matches none of the patterns, so the loop never clips its own output and
  the files it finds do not depend on the calls made so far.
\<close>

lemma unclipped_not_suffix:
  assumes "suffix ''_clipped.tif'' v" and "extension \<in> set files_for_mintpy"
  shows "\<not> suffix extension v"
proof
  assume "suffix extension v"
  with assms(1) have "suffix extension ''_clipped.tif'' \<or> suffix ''_clipped.tif'' extension"
    by (rule suffix_same_cases [THEN disjE]) blast+
  with assms(2) show False
    by (auto simp: files_for_mintpy_def suffix_to_prefix)
qed

lemma conncomp_is_listed:
  "conncomp_file \<in> set example_tree \<and> ''_conncomp.tif'' \<in> set files_for_mintpy
   \<and> suffix ''_conncomp.tif'' (name conncomp_file)"
  by (simp add: example_tree_def files_for_mintpy_def conncomp_file_def suffix_to_prefix)

lemma conncomp_not_gamma:
  "extension \<in> set files_for_mintpy_gamma \<Longrightarrow> \<not> suffix extension (name conncomp_file)"
  by (auto simp: files_for_mintpy_gamma_def conncomp_file_def suffix_to_prefix)

text \<open>
  Claim C6, as stated.  Every raster below \<open>data_dir\<close> whose name ends with one of the
  seven listed extensions (water mask, correlation, connected components, unwrapped phase,
  DEM, look-vector theta, look-vector phi) is claimed to get a clipped output.  The GAMMA
  notebook's function does not list the connected components: it makes no call for such a
  file.
\<close>

theorem clip_gamma_skips_conncomp:
  "\<not> (\<forall>file \<in> set example_tree. \<forall>extension \<in> set files_for_mintpy.
        suffix extension (name file) \<longrightarrow>
          (\<exists>call \<in> set (clip_hyp3_products_to_common_overlap_gamma example_tree [2, 10, 8, 4 :: int]).
             srcDS call = file))"
proof
  assume all: "\<forall>file \<in> set example_tree. \<forall>extension \<in> set files_for_mintpy.
        suffix extension (name file) \<longrightarrow>
          (\<exists>call \<in> set (clip_hyp3_products_to_common_overlap_gamma example_tree [2, 10, 8, 4 :: int]).
             srcDS call = file)"
  from conncomp_is_listed have listed: "conncomp_file \<in> set example_tree"
    "''_conncomp.tif'' \<in> set files_for_mintpy" "suffix ''_conncomp.tif'' (name conncomp_file)"
    by simp_all
  from all listed(1) have "\<forall>extension \<in> set files_for_mintpy.
        suffix extension (name conncomp_file) \<longrightarrow>
          (\<exists>call \<in> set (clip_hyp3_products_to_common_overlap_gamma example_tree [2, 10, 8, 4 :: int]).
             srcDS call = conncomp_file)"
    by (rule bspec)
  from this listed(2) have "suffix ''_conncomp.tif'' (name conncomp_file) \<longrightarrow>
          (\<exists>call \<in> set (clip_hyp3_products_to_common_overlap_gamma example_tree [2, 10, 8, 4 :: int]).
             srcDS call = conncomp_file)"
    by (rule bspec)
  from this listed(3) obtain call where
    call: "call \<in> set (clip_products files_for_mintpy_gamma example_tree [2, 10, 8, 4 :: int])"
    and src: "srcDS call = conncomp_file"
    unfolding clip_hyp3_products_to_common_overlap_gamma_def by blast
  from call obtain src_file extension where
    "call = \<lparr>destName = dst_file src_file, srcDS = src_file, projWin = [2, 10, 8, 4]\<rparr>"
    and ext: "extension \<in> set files_for_mintpy_gamma" and suff: "suffix extension (name src_file)"
    unfolding set_clip_products by blast
  with src have "src_file = conncomp_file" by simp
  with conncomp_not_gamma [OF ext] suff show False by simp
qed

text \<open>
  Claim C6, amended.  For every raster below \<open>data_dir\<close> whose name ends with one of the
  extensions the notebook's own \<open>files_for_mintpy\<close> lists (the seven above in the ISCE2
  burst notebook; the same without the connected components in the GAMMA notebook),
  \<open>clip_hyp3_products_to_common_overlap\<close> calls \<open>gdal.Translate\<close> with that file as the
  source, the common overlap as the window, and as the destination the file of the same
  directory named by putting \<open>_clipped\<close> in front of the suffix \<open>.tif\<close>.
\<close>

theorem clip_products_to_common_overlap:
  "(file \<in> set tree \<and> extension \<in> set files_for_mintpy \<and> suffix extension (name file) \<longrightarrow>
      (\<exists>stem. stem \<noteq> [] \<and> name file = stem @ ''.tif''
         \<and> \<lparr>destName = \<lparr>parent = parent file, name = stem @ ''_clipped.tif''\<rparr>,
             srcDS = file, projWin = overlap\<rparr>
            \<in> set (clip_hyp3_products_to_common_overlap tree overlap)))
   \<and> (file \<in> set tree \<and> extension \<in> set files_for_mintpy_gamma \<and> suffix extension (name file) \<longrightarrow>
      (\<exists>stem. stem \<noteq> [] \<and> name file = stem @ ''.tif''
         \<and> \<lparr>destName = \<lparr>parent = parent file, name = stem @ ''_clipped.tif''\<rparr>,
             srcDS = file, projWin = overlap\<rparr>
            \<in> set (clip_hyp3_products_to_common_overlap_gamma tree overlap)))"
proof (intro conjI impI)
  assume "file \<in> set tree \<and> extension \<in> set files_for_mintpy \<and> suffix extension (name file)"
  then have "file \<in> set tree" "extension \<in> set files_for_mintpy" "suffix extension (name file)"
    by simp_all
  then show "\<exists>stem. stem \<noteq> [] \<and> name file = stem @ ''.tif''
         \<and> \<lparr>destName = \<lparr>parent = parent file, name = stem @ ''_clipped.tif''\<rparr>,
             srcDS = file, projWin = overlap\<rparr>
            \<in> set (clip_hyp3_products_to_common_overlap tree overlap)"
    unfolding clip_hyp3_products_to_common_overlap_def
    by (rule clip_products_clips) simp
next
  assume "file \<in> set tree \<and> extension \<in> set files_for_mintpy_gamma \<and> suffix extension (name file)"
  then have "file \<in> set tree" "extension \<in> set files_for_mintpy_gamma" "suffix extension (name file)"
    by simp_all
  then show "\<exists>stem. stem \<noteq> [] \<and> name file = stem @ ''.tif''
         \<and> \<lparr>destName = \<lparr>parent = parent file, name = stem @ ''_clipped.tif''\<rparr>,
             srcDS = file, projWin = overlap\<rparr>
            \<in> set (clip_hyp3_products_to_common_overlap_gamma tree overlap)"
    unfolding clip_hyp3_products_to_common_overlap_gamma_def
    by (rule clip_products_clips) (rule gamma_extensions_subset)
qed

theorem clip_products_to_common_overlap_witness:
  "unw_phase_file \<in> set example_tree
   \<and> ''_unw_phase.tif'' \<in> set files_for_mintpy
   \<and> ''_unw_phase.tif'' \<in> set files_for_mintpy_gamma
   \<and> suffix ''_unw_phase.tif'' (name unw_phase_file)
   \<and> \<lparr>destName = \<lparr>parent = ''data/S1_136231_IW2'', name = ''S1_136231_IW2_unw_phase_clipped.tif''\<rparr>,
       srcDS = unw_phase_file, projWin = [2, 10, 8, 4 :: int]\<rparr>
      \<in> set (clip_hyp3_products_to_common_overlap example_tree [2, 10, 8, 4])
   \<and> \<lparr>destName = \<lparr>parent = ''data/S1_136231_IW2'', name = ''S1_136231_IW2_unw_phase_clipped.tif''\<rparr>,
       srcDS = unw_phase_file, projWin = [2, 10, 8, 4 :: int]\<rparr>
      \<in> set (clip_hyp3_products_to_common_overlap_gamma example_tree [2, 10, 8, 4])"
proof -
  have hyps: "unw_phase_file \<in> set example_tree" "''_unw_phase.tif'' \<in> set files_for_mintpy"
    "''_unw_phase.tif'' \<in> set files_for_mintpy_gamma"
    "suffix ''_unw_phase.tif'' (name unw_phase_file)"
    by (simp_all add: example_tree_def files_for_mintpy_def files_for_mintpy_gamma_def
          unw_phase_file_def suffix_to_prefix)
  have nm: "name unw_phase_file = stem @ ''.tif'' \<Longrightarrow> stem = ''S1_136231_IW2_unw_phase''" for stem
    by (simp add: unw_phase_file_def append_eq_append_conv [of stem "''S1_136231_IW2_unw_phase''" "''.tif''" "''.tif''", symmetric])
  have par: "parent unw_phase_file = ''data/S1_136231_IW2''"
    by (simp add: unw_phase_file_def)
  from hyps clip_products_to_common_overlap
      [of unw_phase_file example_tree "''_unw_phase.tif''" "[2, 10, 8, 4 :: int]"]
  obtain stem stem' where
    "name unw_phase_file = stem @ ''.tif''"
    "\<lparr>destName = \<lparr>parent = parent unw_phase_file, name = stem @ ''_clipped.tif''\<rparr>,
       srcDS = unw_phase_file, projWin = [2, 10, 8, 4 :: int]\<rparr>
      \<in> set (clip_hyp3_products_to_common_overlap example_tree [2, 10, 8, 4])"
    "name unw_phase_file = stem' @ ''.tif''"
    "\<lparr>destName = \<lparr>parent = parent unw_phase_file, name = stem' @ ''_clipped.tif''\<rparr>,
       srcDS = unw_phase_file, projWin = [2, 10, 8, 4 :: int]\<rparr>
      \<in> set (clip_hyp3_products_to_common_overlap_gamma example_tree [2, 10, 8, 4])"
    by blast
  with nm [of stem] nm [of stem'] par hyps show ?thesis by simp
qed

section \<open>Properties of the configuration file\<close>

lemma lstrip_Nil: "lstrip [] = []"
  by (simp add: lstrip_def)

lemma lstrip_Cons: "lstrip (c # s) = (if c = CHR '' '' then lstrip s else c # s)"
  by (simp add: lstrip_def)

lemma lstrip_slash: "lstrip (xs @ CHR ''/'' # ys) = lstrip xs @ CHR ''/'' # ys"
  by (induction xs) (simp_all add: lstrip_Cons lstrip_Nil)

lemma lstrip_absolute: "lstrip (CHR ''/'' # s) = CHR ''/'' # s"
  by (simp add: lstrip_Cons)

lemma rstrip_nonblank:
  assumes "ys \<noteq> []" and "last ys \<noteq> CHR '' ''"
  shows "rstrip (xs @ ys) = xs @ ys"
proof -
  from assms obtain zs c where ys: "ys = zs @ [c]" and c: "c \<noteq> CHR '' ''"
    by (metis append_butlast_last_id)
  show ?thesis
    unfolding ys rstrip_def using c by (simp add: lstrip_Cons)
qed

lemma rstrip_literal: "rstrip (c # s) = rev (lstrip (rev (c # s)))"
  by (simp add: rstrip_def)

text \<open>Every line of the two files, read as an entry.\<close>

lemma config_entry_lines:
  "config_entry '''' = None"
  "config_entry ''mintpy.load.processor        = hyp3'' = Some (''mintpy.load.processor'', ''hyp3'')"
  "config_entry ''##---------interferogram datasets:'' = None"
  "config_entry (''mintpy.load.unwFile          = '' @ data_dir @ ''/*/*_unw_phase_clipped.tif'') = Some (''mintpy.load.unwFile'', lstrip data_dir @ ''/*/*_unw_phase_clipped.tif'')"
  "config_entry (''mintpy.load.corFile          = '' @ data_dir @ ''/*/*_corr_clipped.tif'') = Some (''mintpy.load.corFile'', lstrip data_dir @ ''/*/*_corr_clipped.tif'')"
  "config_entry (''mintpy.load.connCompFile     = '' @ data_dir @ ''/*/*_conncomp_clipped.tif'') = Some (''mintpy.load.connCompFile'', lstrip data_dir @ ''/*/*_conncomp_clipped.tif'')"
  "config_entry ''##---------geometry datasets:'' = None"
  "config_entry (''mintpy.load.demFile          = '' @ data_dir @ ''/*/*_dem_clipped.tif'') = Some (''mintpy.load.demFile'', lstrip data_dir @ ''/*/*_dem_clipped.tif'')"
  "config_entry (''mintpy.load.incAngleFile     = '' @ data_dir @ ''/*/*_lv_theta_clipped.tif'') = Some (''mintpy.load.incAngleFile'', lstrip data_dir @ ''/*/*_lv_theta_clipped.tif'')"
  "config_entry (''mintpy.load.azAngleFile      = '' @ data_dir @ ''/*/*_lv_phi_clipped.tif'') = Some (''mintpy.load.azAngleFile'', lstrip data_dir @ ''/*/*_lv_phi_clipped.tif'')"
  "config_entry (''mintpy.load.waterMaskFile    = '' @ data_dir @ ''/*/*_water_mask_clipped.tif'') = Some (''mintpy.load.waterMaskFile'', lstrip data_dir @ ''/*/*_water_mask_clipped.tif'')"
  "config_entry ''mintpy.troposphericDelay.method = no'' = Some (''mintpy.troposphericDelay.method'', ''no'')"
  "config_entry ''##---------misc:'' = None"
  "config_entry ''mintpy.plot = no'' = Some (''mintpy.plot'', ''no'')"
  "config_entry ''mintpy.network.coherenceBased = no'' = Some (''mintpy.network.coherenceBased'', ''no'')"
  "config_entry ''##---------interferogram datasets'' = None"
  "config_entry ''# mintpy.troposphericDelay.method = no'' = None"
  by (simp_all add: config_entry_def lstrip_Cons lstrip_Nil lstrip_slash rstrip_nonblank rstrip_literal)

lemma dataset_entries_burst:
  "dataset_entries (mintpy_config data_dir) =
     [(''mintpy.load.unwFile'', lstrip data_dir @ ''/*/*_unw_phase_clipped.tif''),
      (''mintpy.load.corFile'', lstrip data_dir @ ''/*/*_corr_clipped.tif''),
      (''mintpy.load.connCompFile'', lstrip data_dir @ ''/*/*_conncomp_clipped.tif''),
      (''mintpy.load.demFile'', lstrip data_dir @ ''/*/*_dem_clipped.tif''),
      (''mintpy.load.incAngleFile'', lstrip data_dir @ ''/*/*_lv_theta_clipped.tif''),
      (''mintpy.load.azAngleFile'', lstrip data_dir @ ''/*/*_lv_phi_clipped.tif''),
      (''mintpy.load.waterMaskFile'', lstrip data_dir @ ''/*/*_water_mask_clipped.tif'')]"
proof -
  have "List.map_filter config_entry (mintpy_config data_dir) =
     [(''mintpy.load.processor'', ''hyp3''),
      (''mintpy.load.unwFile'', lstrip data_dir @ ''/*/*_unw_phase_clipped.tif''),
      (''mintpy.load.corFile'', lstrip data_dir @ ''/*/*_corr_clipped.tif''),
      (''mintpy.load.connCompFile'', lstrip data_dir @ ''/*/*_conncomp_clipped.tif''),
      (''mintpy.load.demFile'', lstrip data_dir @ ''/*/*_dem_clipped.tif''),
      (''mintpy.load.incAngleFile'', lstrip data_dir @ ''/*/*_lv_theta_clipped.tif''),
      (''mintpy.load.azAngleFile'', lstrip data_dir @ ''/*/*_lv_phi_clipped.tif''),
      (''mintpy.load.waterMaskFile'', lstrip data_dir @ ''/*/*_water_mask_clipped.tif''),
      (''mintpy.troposphericDelay.method'', ''no''),
      (''mintpy.plot'', ''no''),
      (''mintpy.network.coherenceBased'', ''no'')]"
    unfolding mintpy_config_def
    by (simp only: List.map_filter_simps config_entry_lines option.case)
  then show ?thesis
    unfolding dataset_entries_def by (simp add: suffix_to_prefix)
qed

lemma dataset_entries_gamma:
  "dataset_entries (mintpy_config_gamma data_dir) =
     [(''mintpy.load.unwFile'', lstrip data_dir @ ''/*/*_unw_phase_clipped.tif''),
      (''mintpy.load.corFile'', lstrip data_dir @ ''/*/*_corr_clipped.tif''),
      (''mintpy.load.demFile'', lstrip data_dir @ ''/*/*_dem_clipped.tif''),
      (''mintpy.load.incAngleFile'', lstrip data_dir @ ''/*/*_lv_theta_clipped.tif''),
      (''mintpy.load.azAngleFile'', lstrip data_dir @ ''/*/*_lv_phi_clipped.tif''),
      (''mintpy.load.waterMaskFile'', lstrip data_dir @ ''/*/*_water_mask_clipped.tif'')]"
proof -
  have "List.map_filter config_entry (mintpy_config_gamma data_dir) =
     [(''mintpy.load.processor'', ''hyp3''),
      (''mintpy.load.unwFile'', lstrip data_dir @ ''/*/*_unw_phase_clipped.tif''),
      (''mintpy.load.corFile'', lstrip data_dir @ ''/*/*_corr_clipped.tif''),
      (''mintpy.load.demFile'', lstrip data_dir @ ''/*/*_dem_clipped.tif''),
      (''mintpy.load.incAngleFile'', lstrip data_dir @ ''/*/*_lv_theta_clipped.tif''),
      (''mintpy.load.azAngleFile'', lstrip data_dir @ ''/*/*_lv_phi_clipped.tif''),
      (''mintpy.load.waterMaskFile'', lstrip data_dir @ ''/*/*_water_mask_clipped.tif'')]"
    unfolding mintpy_config_gamma_def
    by (simp only: List.map_filter_simps config_entry_lines option.case)
  then show ?thesis
    unfolding dataset_entries_def by (simp add: suffix_to_prefix)
qed

lemma clipped_extension_tif:
  "e \<noteq> [] \<Longrightarrow> clipped_extension (e @ ''.tif'') = e @ ''_clipped.tif''"
  by (simp add: clipped_extension_def path_suffix_tif path_stem_tif)

lemma clipped_extensions:
  "map clipped_extension files_for_mintpy =
     [''_water_mask_clipped.tif'', ''_corr_clipped.tif'', ''_conncomp_clipped.tif'',
      ''_unw_phase_clipped.tif'', ''_dem_clipped.tif'', ''_lv_theta_clipped.tif'',
      ''_lv_phi_clipped.tif'']"
  unfolding files_for_mintpy_def
  using clipped_extension_tif [of "''_water_mask''"] clipped_extension_tif [of "''_corr''"]
    clipped_extension_tif [of "''_conncomp''"] clipped_extension_tif [of "''_unw_phase''"]
    clipped_extension_tif [of "''_dem''"] clipped_extension_tif [of "''_lv_theta''"]
    clipped_extension_tif [of "''_lv_phi''"]
  by simp

lemma clipped_extensions_gamma:
  "map clipped_extension files_for_mintpy_gamma =
     [''_water_mask_clipped.tif'', ''_corr_clipped.tif'',
      ''_unw_phase_clipped.tif'', ''_dem_clipped.tif'', ''_lv_theta_clipped.tif'',
      ''_lv_phi_clipped.tif'']"
  unfolding files_for_mintpy_gamma_def
  using clipped_extension_tif [of "''_water_mask''"] clipped_extension_tif [of "''_corr''"]
    clipped_extension_tif [of "''_unw_phase''"]
    clipped_extension_tif [of "''_dem''"] clipped_extension_tif [of "''_lv_theta''"]
    clipped_extension_tif [of "''_lv_phi''"]
  by simp

lemma clipped_pattern_entry:
  assumes "e \<noteq> []" and "e @ ''.tif'' \<in> set extensions"
  shows "clipped_pattern extensions data_dir (lstrip data_dir @ ''/*/*'' @ e @ ''_clipped.tif'')"
proof -
  have ends: "suffix ''_clipped.tif'' (lstrip data_dir @ ''/*/*'' @ e @ ''_clipped.tif'')"
    by (rule suffixI [of _ "lstrip data_dir @ ''/*/*'' @ e"]) simp
  have "\<forall>extension \<in> set files_for_mintpy.
      \<not> suffix extension (lstrip data_dir @ ''/*/*'' @ e @ ''_clipped.tif'')"
  proof
    fix extension
    assume "extension \<in> set files_for_mintpy"
    with ends show "\<not> suffix extension (lstrip data_dir @ ''/*/*'' @ e @ ''_clipped.tif'')"
      by (rule unclipped_not_suffix)
  qed
  moreover note ends
  moreover from assms have "\<exists>extension \<in> set extensions.
      lstrip data_dir @ ''/*/*'' @ e @ ''_clipped.tif''
        = lstrip data_dir @ ''/*/*'' @ clipped_extension extension"
    by (intro bexI [of _ "e @ ''.tif''"]) (simp_all add: clipped_extension_tif)
  ultimately show ?thesis
    unfolding clipped_pattern_def by blast
qed

lemma clipped_patterns_burst:
  "clipped_pattern files_for_mintpy data_dir (lstrip data_dir @ ''/*/*_unw_phase_clipped.tif'')"
  "clipped_pattern files_for_mintpy data_dir (lstrip data_dir @ ''/*/*_corr_clipped.tif'')"
  "clipped_pattern files_for_mintpy data_dir (lstrip data_dir @ ''/*/*_conncomp_clipped.tif'')"
  "clipped_pattern files_for_mintpy data_dir (lstrip data_dir @ ''/*/*_dem_clipped.tif'')"
  "clipped_pattern files_for_mintpy data_dir (lstrip data_dir @ ''/*/*_lv_theta_clipped.tif'')"
  "clipped_pattern files_for_mintpy data_dir (lstrip data_dir @ ''/*/*_lv_phi_clipped.tif'')"
  "clipped_pattern files_for_mintpy data_dir (lstrip data_dir @ ''/*/*_water_mask_clipped.tif'')"
  using clipped_pattern_entry [of "''_unw_phase''" files_for_mintpy data_dir]
    clipped_pattern_entry [of "''_corr''" files_for_mintpy data_dir]
    clipped_pattern_entry [of "''_conncomp''" files_for_mintpy data_dir]
    clipped_pattern_entry [of "''_dem''" files_for_mintpy data_dir]
    clipped_pattern_entry [of "''_lv_theta''" files_for_mintpy data_dir]
    clipped_pattern_entry [of "''_lv_phi''" files_for_mintpy data_dir]
    clipped_pattern_entry [of "''_water_mask''" files_for_mintpy data_dir]
  by (simp_all add: files_for_mintpy_def)

lemma clipped_patterns_gamma:
  "clipped_pattern files_for_mintpy_gamma data_dir (lstrip data_dir @ ''/*/*_unw_phase_clipped.tif'')"
  "clipped_pattern files_for_mintpy_gamma data_dir (lstrip data_dir @ ''/*/*_corr_clipped.tif'')"
  "clipped_pattern files_for_mintpy_gamma data_dir (lstrip data_dir @ ''/*/*_dem_clipped.tif'')"
  "clipped_pattern files_for_mintpy_gamma data_dir (lstrip data_dir @ ''/*/*_lv_theta_clipped.tif'')"
  "clipped_pattern files_for_mintpy_gamma data_dir (lstrip data_dir @ ''/*/*_lv_phi_clipped.tif'')"
  "clipped_pattern files_for_mintpy_gamma data_dir (lstrip data_dir @ ''/*/*_water_mask_clipped.tif'')"
  using clipped_pattern_entry [of "''_unw_phase''" files_for_mintpy_gamma data_dir]
    clipped_pattern_entry [of "''_corr''" files_for_mintpy_gamma data_dir]
    clipped_pattern_entry [of "''_dem''" files_for_mintpy_gamma data_dir]
    clipped_pattern_entry [of "''_lv_theta''" files_for_mintpy_gamma data_dir]
    clipped_pattern_entry [of "''_lv_phi''" files_for_mintpy_gamma data_dir]
    clipped_pattern_entry [of "''_water_mask''" files_for_mintpy_gamma data_dir]
  by (simp_all add: files_for_mintpy_gamma_def)

text \<open>
  Claim C7.  Every dataset entry of the generated configuration (unwrapped phase,
  correlation, DEM, incidence angle, azimuth angle, water mask and, in the burst
  notebook, connected components) names a clipped pattern: the data directory, then
  \<open>/*/*\<close>, then the clipped name of one of the notebook's product extensions.  Its value
  ends with \<open>_clipped.tif\<close> and with none of the unclipped extensions.
\<close>

theorem mintpy_config_references_clipped:
  "(\<forall>kv \<in> set (dataset_entries (mintpy_config data_dir)).
      clipped_pattern files_for_mintpy data_dir (snd kv))
   \<and> map fst (dataset_entries (mintpy_config data_dir)) =
       [''mintpy.load.unwFile'', ''mintpy.load.corFile'', ''mintpy.load.connCompFile'',
        ''mintpy.load.demFile'', ''mintpy.load.incAngleFile'', ''mintpy.load.azAngleFile'',
        ''mintpy.load.waterMaskFile'']
   \<and> (\<forall>kv \<in> set (dataset_entries (mintpy_config_gamma data_dir)).
      clipped_pattern files_for_mintpy_gamma data_dir (snd kv))
   \<and> map fst (dataset_entries (mintpy_config_gamma data_dir)) =
       [''mintpy.load.unwFile'', ''mintpy.load.corFile'',
        ''mintpy.load.demFile'', ''mintpy.load.incAngleFile'', ''mintpy.load.azAngleFile'',
        ''mintpy.load.waterMaskFile'']"
proof (intro conjI)
  show "\<forall>kv \<in> set (dataset_entries (mintpy_config data_dir)).
      clipped_pattern files_for_mintpy data_dir (snd kv)"
    unfolding dataset_entries_burst
    by (simp only: list.set ball_simps snd_conv clipped_patterns_burst simp_thms)
next
  show "\<forall>kv \<in> set (dataset_entries (mintpy_config_gamma data_dir)).
      clipped_pattern files_for_mintpy_gamma data_dir (snd kv)"
    unfolding dataset_entries_gamma
    by (simp only: list.set ball_simps snd_conv clipped_patterns_gamma simp_thms)
next
  show "map fst (dataset_entries (mintpy_config data_dir)) =
       [''mintpy.load.unwFile'', ''mintpy.load.corFile'', ''mintpy.load.connCompFile'',
        ''mintpy.load.demFile'', ''mintpy.load.incAngleFile'', ''mintpy.load.azAngleFile'',
        ''mintpy.load.waterMaskFile'']"
    unfolding dataset_entries_burst by (simp only: list.map fst_conv)
next
  show "map fst (dataset_entries (mintpy_config_gamma data_dir)) =
       [''mintpy.load.unwFile'', ''mintpy.load.corFile'',
        ''mintpy.load.demFile'', ''mintpy.load.incAngleFile'', ''mintpy.load.azAngleFile'',
        ''mintpy.load.waterMaskFile'']"
    unfolding dataset_entries_gamma by (simp only: list.map fst_conv)
qed

theorem mintpy_config_references_clipped_witness:
  "(''mintpy.load.demFile'', ''/home/user/2014_mount_edgecumbe/data/*/*_dem_clipped.tif'')
      \<in> set (dataset_entries (mintpy_config example_data_dir))
   \<and> clipped_pattern files_for_mintpy example_data_dir
        ''/home/user/2014_mount_edgecumbe/data/*/*_dem_clipped.tif''
   \<and> suffix ''_clipped.tif'' ''/home/user/2014_mount_edgecumbe/data/*/*_dem_clipped.tif''
   \<and> \<not> suffix ''_dem.tif'' ''/home/user/2014_mount_edgecumbe/data/*/*_dem_clipped.tif''"
proof -
  have strip: "lstrip example_data_dir = ''/home/user/2014_mount_edgecumbe/data''"
    unfolding example_data_dir_def by (rule lstrip_absolute)
  have mem: "(''mintpy.load.demFile'', ''/home/user/2014_mount_edgecumbe/data/*/*_dem_clipped.tif'')
      \<in> set (dataset_entries (mintpy_config example_data_dir))"
    unfolding dataset_entries_burst strip by simp
  from mintpy_config_references_clipped [of example_data_dir] have
    "\<forall>kv \<in> set (dataset_entries (mintpy_config example_data_dir)).
      clipped_pattern files_for_mintpy example_data_dir (snd kv)"
    by (rule conjunct1)
  from this mem have pat: "clipped_pattern files_for_mintpy example_data_dir
        (snd (''mintpy.load.demFile'', ''/home/user/2014_mount_edgecumbe/data/*/*_dem_clipped.tif''))"
    by (rule bspec)
  then have pat': "clipped_pattern files_for_mintpy example_data_dir
        ''/home/user/2014_mount_edgecumbe/data/*/*_dem_clipped.tif''"
    by (simp only: snd_conv)
  have dem: "''_dem.tif'' \<in> set files_for_mintpy"
    by (simp add: files_for_mintpy_def)
  from pat' dem have "suffix ''_clipped.tif'' ''/home/user/2014_mount_edgecumbe/data/*/*_dem_clipped.tif''"
    and "\<not> suffix ''_dem.tif'' ''/home/user/2014_mount_edgecumbe/data/*/*_dem_clipped.tif''"
    unfolding clipped_pattern_def by blast+
  with mem pat' show ?thesis by blast
qed

end
